theory Spec2Isabelle
  imports Complex_Main "HOL-Library.AList"
begin

section \<open>Python values\<close>

text \<open>
  The scripts keep accounts and mapping entries as Python dictionaries read from and
  written to JSON. A JSON document is a value of \<open>json\<close>; a dictionary is an
  association list in insertion order with one pair per key: \<open>d[k] = v\<close> is
  \<open>AList.update k v d\<close>, \<open>d.get(k)\<close> is \<open>map_of d k\<close> and \<open>d.pop(k, None)\<close>
  is \<open>AList.delete k d\<close>. Exceptions are values of \<open>py_error\<close>.
\<close>

datatype py_error =
    KeyError
  | TypeError
  | ValueError
  | AttributeError
  | NameError
  | UnboundLocalError
  | InvalidSignature
  | RequestException
  | RuntimeError

datatype json =
    JNull
  | JBool bool
  | JNum rat
  | JStr string
  | JArr "json list"
  | JObj "(string \<times> json) list"

type_synonym pydict = "(string \<times> json) list"

text \<open>Truthiness of a value, as \<open>if v\<close> reads it.\<close>

fun truthy :: "json \<Rightarrow> bool" where
  "truthy JNull = False"
| "truthy (JBool b) = b"
| "truthy (JNum r) = (r \<noteq> 0)"
| "truthy (JStr s) = (s \<noteq> [])"
| "truthy (JArr xs) = (xs \<noteq> [])"
| "truthy (JObj kvs) = (kvs \<noteq> [])"

text \<open>\<open>d.get(k)\<close>: the value under \<open>k\<close>, or \<open>None\<close> (JSON null) when the key is absent.\<close>

definition dict_get :: "pydict \<Rightarrow> string \<Rightarrow> json" where
  "dict_get d k = (case map_of d k of None \<Rightarrow> JNull | Some v \<Rightarrow> v)"

text \<open>\<open>d[k]\<close>: raises KeyError when the key is absent.\<close>

definition dict_item :: "pydict \<Rightarrow> string \<Rightarrow> py_error + json" where
  "dict_item d k = (case map_of d k of None \<Rightarrow> Inl KeyError | Some v \<Rightarrow> Inr v)"

section \<open>Account directory: \<open>combine_accounts\<close> (akahu\_budget\_mapping.py)\<close>

text \<open>
  An account dictionary with the keys the mapping script reads and writes: \<open>id\<close> and
  \<open>name\<close> (every fetched account has them), \<open>connection\<close> (Akahu accounts),
  \<open>date_first_loaded\<close> (absent until \<open>combine_accounts\<close> stamps it) and \<open>seq\<close>
  (absent until \<open>match_accounts\<close> numbers the target accounts).
\<close>

record account =
  acc_id :: string
  acc_name :: string
  connection :: "string option"
  date_first_loaded :: "string option"
  seq :: "int option"

text \<open>
  \<open>existing_ids = {account['id']: account for account in existing_accounts}\<close>: a key
  keeps the position of its first insertion and the value of its last.
\<close>

definition existing_ids_of :: "account list \<Rightarrow> (string \<times> account) list" where
  "existing_ids_of existing = foldl (\<lambda>d a. AList.update (acc_id a) a d) [] existing"

text \<open>
  \<open>combine_accounts(latest_accounts, existing_accounts)\<close>. The clock reading
  \<open>datetime.now().isoformat()\<close> is the parameter \<open>current_date\<close>.
\<close>

definition stamp_account :: "string \<Rightarrow> (string \<times> account) list \<Rightarrow> account \<Rightarrow> account" where
  "stamp_account current_date existing_ids account_data =
     (case map_of existing_ids (acc_id account_data) of
        Some e \<Rightarrow>
          account_data\<lparr>date_first_loaded :=
            Some (case date_first_loaded e of None \<Rightarrow> current_date | Some d \<Rightarrow> d)\<rparr>
      | None \<Rightarrow> account_data\<lparr>date_first_loaded := Some current_date\<rparr>)"

definition combine_accounts ::
  "string \<Rightarrow> account list \<Rightarrow> account list \<Rightarrow> account list \<times> string list" where
  "combine_accounts current_date latest_accounts existing_accounts =
     (let existing_ids = existing_ids_of existing_accounts;
          latest_ids = map acc_id latest_accounts;
          combined_accounts = map (stamp_account current_date existing_ids) latest_accounts;
          deleted_accounts = filter (\<lambda>account_id. account_id \<notin> set latest_ids)
                               (map fst existing_ids)
      in (combined_accounts, deleted_accounts))"

text \<open>An account dictionary with \<open>id\<close>, \<open>name\<close> and, when given, \<open>date_first_loaded\<close>.\<close>

definition acct :: "string \<Rightarrow> string \<Rightarrow> string option \<Rightarrow> account" where
  "acct i n d =
     \<lparr>acc_id = i, acc_name = n, connection = None, date_first_loaded = d, seq = None\<rparr>"

section \<open>Match suggestions (akahu\_budget\_mapping.py)\<close>

text \<open>
  The mapping store is a dictionary from Akahu account id to a mapping entry, itself a
  dictionary. \<open>already_mapped\<close> is the test the script repeats wherever it skips or
  marks a target account:
  \<open>any(account_id == mapping.get(target_account_key) for mapping in
  akahu_to_account_mapping.values())\<close>.
\<close>

type_synonym mapping_store = "(string \<times> pydict) list"

definition already_mapped :: "mapping_store \<Rightarrow> string \<Rightarrow> string \<Rightarrow> bool" where
  "already_mapped akahu_to_account_mapping target_account_key account_id =
     list_ex (\<lambda>mapping. dict_get mapping target_account_key = JStr account_id)
       (map snd akahu_to_account_mapping)"

text \<open>
  \<open>match_accounts\<close> numbers the target accounts before it asks for a suggestion:
  \<open>for idx, target_account in enumerate(target_accounts, start=1):
  target_account['seq'] = idx\<close>.
\<close>

fun number_from :: "nat \<Rightarrow> account list \<Rightarrow> account list" where
  "number_from idx [] = []"
| "number_from idx (target_account # rest) =
     target_account\<lparr>seq := Some (int idx)\<rparr> # number_from (Suc idx) rest"

definition number_targets :: "account list \<Rightarrow> account list" where
  "number_targets target_accounts = number_from 1 target_accounts"

text \<open>
  \<open>next((account for account in target_accounts if account['seq'] == chosen_seq), None)\<close>;
  reading \<open>account['seq']\<close> raises KeyError on an account that was never numbered.
\<close>

fun find_by_seq :: "account list \<Rightarrow> int \<Rightarrow> py_error + account option" where
  "find_by_seq [] chosen_seq = Inr None"
| "find_by_seq (account # rest) chosen_seq =
     (case seq account of
        None \<Rightarrow> Inl KeyError
      | Some s \<Rightarrow> if s = chosen_seq then Inr (Some account) else find_by_seq rest chosen_seq)"

text \<open>
  \<open>validate_user_input\<close>. Python's \<open>int(response_content)\<close> is the parameter
  \<open>py_int\<close> (\<open>None\<close> when it raises ValueError, which the function catches).
\<close>

definition validate_user_input ::
  "(string \<Rightarrow> int option) \<Rightarrow> string \<Rightarrow> account list \<Rightarrow> mapping_store \<Rightarrow> string \<Rightarrow>
     py_error + int option" where
  "validate_user_input py_int response_content target_accounts akahu_to_account_mapping
       target_account_key =
     (case py_int response_content of
        None \<Rightarrow> Inr None
      | Some chosen_seq \<Rightarrow>
          (case find_by_seq target_accounts chosen_seq of
             Inl e \<Rightarrow> Inl e
           | Inr None \<Rightarrow> Inr None
           | Inr (Some account) \<Rightarrow>
               if \<not> already_mapped akahu_to_account_mapping target_account_key (acc_id account)
               then Inr (Some chosen_seq)
               else Inr None))"

text \<open>
  The loop both suggestion functions run over \<open>enumerate(target_accounts, start=1)\<close>:
  it reads \<open>id\<close>, \<open>name\<close> and \<open>seq\<close> of every account (KeyError when \<open>seq\<close> is
  absent), skips the accounts that are already mapped and keeps, for the others, the
  name, the 1-based position and the sequence number.
\<close>

fun unmapped_targets ::
  "mapping_store \<Rightarrow> string \<Rightarrow> nat \<Rightarrow> account list \<Rightarrow> py_error + (string \<times> int \<times> int) list" where
  "unmapped_targets m k idx [] = Inr []"
| "unmapped_targets m k idx (target_account # rest) =
     (case seq target_account of
        None \<Rightarrow> Inl KeyError
      | Some account_seq \<Rightarrow>
          (case unmapped_targets m k (Suc idx) rest of
             Inl e \<Rightarrow> Inl e
           | Inr others \<Rightarrow>
               if already_mapped m k (acc_id target_account) then Inr others
               else Inr ((acc_name target_account, int idx, account_seq) # others)))"

text \<open>\<open>xs.index(x)\<close>: the first position of \<open>x\<close>, ValueError (here \<open>None\<close>) when absent.\<close>

fun index_of :: "'a list \<Rightarrow> 'a \<Rightarrow> nat option" where
  "index_of [] x = None"
| "index_of (y # ys) x = (if y = x then Some 0 else map_option Suc (index_of ys x))"

text \<open>
  \<open>get_fuzzy_match_suggestion\<close>. The fuzzywuzzy call \<open>process.extractOne(query,
  choices)\<close> is the parameter \<open>extractOne\<close>; it returns a name and a confidence.
\<close>

definition get_fuzzy_match_suggestion ::
  "(string \<Rightarrow> string list \<Rightarrow> string \<times> int) \<Rightarrow> account \<Rightarrow> account list \<Rightarrow> mapping_store \<Rightarrow>
     string \<Rightarrow> py_error + int option" where
  "get_fuzzy_match_suggestion extractOne akahu_account target_accounts
       akahu_to_account_mapping target_account_key =
     (case unmapped_targets akahu_to_account_mapping target_account_key 1 target_accounts of
        Inl e \<Rightarrow> Inl e
      | Inr unmapped \<Rightarrow>
          (let unmapped_accounts = map fst unmapped;
               unmapped_indices = map (fst \<circ> snd) unmapped
           in if unmapped_accounts \<noteq> [] then
                (case extractOne (acc_name akahu_account) unmapped_accounts of
                   (best_match_name, confidence) \<Rightarrow>
                     if confidence \<ge> 50 then
                       (case index_of unmapped_accounts best_match_name of
                          None \<Rightarrow> Inl ValueError
                        | Some best_match_index \<Rightarrow>
                            Inr (Some (unmapped_indices ! best_match_index)))
                     else Inr None)
              else Inr None))"

text \<open>
  \<open>get_openai_match_suggestion\<close>. The prompt lists \<open>seq. name\<close> for every target account
  that is not mapped yet; the chat completion call is the parameter \<open>ask\<close>, given the
  Akahu account's name and connection and the listed lines, and answering with the
  stripped content of the first choice, or \<open>None\<close> when the call or the access
  raises. Everything inside the \<open>try\<close> that raises falls back to the fuzzy suggestion.
\<close>

definition get_openai_match_suggestion ::
  "(string \<Rightarrow> string \<Rightarrow> (int \<times> string) list \<Rightarrow> string option) \<Rightarrow> (string \<Rightarrow> int option) \<Rightarrow>
     (string \<Rightarrow> string list \<Rightarrow> string \<times> int) \<Rightarrow> account \<Rightarrow> account list \<Rightarrow> mapping_store \<Rightarrow>
     string \<Rightarrow> py_error + int option" where
  "get_openai_match_suggestion ask py_int extractOne akahu_account target_accounts
       akahu_to_account_mapping target_account_key =
     (case connection akahu_account of
        None \<Rightarrow> Inl KeyError
      | Some conn \<Rightarrow>
          (case unmapped_targets akahu_to_account_mapping target_account_key 1 target_accounts of
             Inl e \<Rightarrow> Inl e
           | Inr unmapped \<Rightarrow>
               (let listed = map (\<lambda>(account_name, idx, account_seq). (account_seq, account_name))
                               unmapped;
                    fallback = get_fuzzy_match_suggestion extractOne akahu_account
                                 target_accounts akahu_to_account_mapping target_account_key
                in case ask (acc_name akahu_account) conn listed of
                     None \<Rightarrow> fallback
                   | Some response_content \<Rightarrow>
                       (case validate_user_input py_int response_content target_accounts
                               akahu_to_account_mapping target_account_key of
                          Inr (Some chosen_index) \<Rightarrow> Inr (Some chosen_index)
                        | Inr None \<Rightarrow> fallback
                        | Inl e \<Rightarrow> fallback))))"

text \<open>
  What the suggestion contract asks of a returned index \<open>i\<close>: it is a 1-based position
  in the candidate list, and the account there is not the target of any mapping entry.
\<close>

definition unmapped_index :: "account list \<Rightarrow> mapping_store \<Rightarrow> string \<Rightarrow> int \<Rightarrow> bool" where
  "unmapped_index target_accounts akahu_to_account_mapping target_account_key i =
     (1 \<le> i \<and> i \<le> int (length target_accounts) \<and>
      \<not> already_mapped akahu_to_account_mapping target_account_key
           (acc_id (target_accounts ! nat (i - 1))))"

text \<open>
  A scorer-based \<open>extractOne\<close>: the first choice with the highest score, as
  fuzzywuzzy's \<open>max(..., key=score)\<close> picks it. Used to run the suggestion functions on
  concrete inputs.
\<close>

fun best_choice :: "(string \<Rightarrow> string \<Rightarrow> int) \<Rightarrow> string \<Rightarrow> string list \<Rightarrow> string \<times> int" where
  "best_choice scorer query [] = ([], 0)"
| "best_choice scorer query [c] = (c, scorer query c)"
| "best_choice scorer query (c # cs) =
     (case best_choice scorer query cs of
        (b, s) \<Rightarrow> if scorer query c \<ge> s then (c, scorer query c) else (b, s))"

text \<open>A toy scorer: 100 for equal names, 0 otherwise.\<close>

definition exact_scorer :: "string \<Rightarrow> string \<Rightarrow> int" where
  "exact_scorer query choice = (if query = choice then 100 else 0)"

text \<open>Reads one decimal digit; enough of \<open>int()\<close> for the examples.\<close>

definition digit_int :: "string \<Rightarrow> int option" where
  "digit_int s =
     (if s = ''1'' then Some 1 else if s = ''2'' then Some 2 else if s = ''3'' then Some 3
      else None)"

text \<open>
  The example of the suggestion functions: three target accounts, of which \<open>t1\<close> is
  already mapped to \<open>a1\<close>, and an unmapped Akahu account named like the second.
\<close>

definition example_targets :: "account list" where
  "example_targets =
     [acct ''t1'' ''Checking'' None, acct ''t2'' ''Everyday'' None, acct ''t3'' ''Saver'' None]"

definition example_akahu_account :: account where
  "example_akahu_account =
     \<lparr>acc_id = ''a9'', acc_name = ''Everyday'', connection = Some ''Kiwibank'',
      date_first_loaded = None, seq = None\<rparr>"

definition example_store :: mapping_store where
  "example_store =
     [(''a1'', [(''actual_account_id'', JStr ''t1''), (''actual_account_name'', JStr ''Checking''),
                (''akahu_id'', JStr ''a1''), (''akahu_name'', JStr ''Cheque''),
                (''matched_date'', JStr ''2024-05-01T08:00:00'')])]"

section \<open>Calls into the Actual Budget library\<close>

text \<open>
  The keyword arguments of \<open>reconcile_transaction\<close> and \<open>create_transaction\<close> of the
  actualpy library, as the scripts pass them. A date object is written by its ISO
  rendering; a \<open>decimal.Decimal\<close> is the rational it denotes (the scripts only negate
  amounts and divide an integer by 100, which the decimal context does exactly below 28
  significant digits).
\<close>

record actual_call =
  call_date :: string
  call_account :: json
  call_payee :: string
  call_notes :: string
  call_amount :: rat
  call_imported_id :: string
  call_cleared :: bool
  call_imported_payee :: string

section \<open>Balance reconciliation: \<open>handle_tracking_account_actual\<close> (akahu\_to\_budget.py)\<close>

text \<open>
  What the function takes from outside: \<open>round_cents\<close> is \<open>round(x * 100)\<close> on the value
  stored under \<open>akahu_balance\<close> (floating point; \<open>None\<close> when the product or the rounding
  raises), \<open>actual_balance_of\<close> is \<open>get_actual_balance(actual, id)\<close> (the target's balance
  in minor units, or \<open>None\<close>, which that function returns on every failure),
  \<open>utcnow_date\<close> and \<open>utcnow_isoformat\<close> are the two clock readings
  \<open>datetime.utcnow().date()\<close> and \<open>datetime.utcnow().isoformat()\<close>, and
  \<open>adjusted_notes\<close> renders the f-string of the notes from the two balances.
\<close>

record tracking_env =
  round_cents :: "json \<Rightarrow> int option"
  actual_balance_of :: "json \<Rightarrow> int option"
  utcnow_date :: string
  utcnow_isoformat :: string
  adjusted_notes :: "int \<Rightarrow> int \<Rightarrow> string"

text \<open>
  The result is the list of \<open>create_transaction\<close> calls the function issues, or the
  exception it raises. The four entry keys are read before the \<open>try\<close>, so a missing one
  raises KeyError; everything after is inside \<open>try ... except Exception\<close>, which logs and
  returns. A target balance of \<open>None\<close> differs from every integer, and the subtraction
  then raises TypeError inside the \<open>try\<close>: no call is issued.
\<close>

definition handle_tracking_account_actual ::
  "tracking_env \<Rightarrow> pydict \<Rightarrow> py_error + actual_call list" where
  "handle_tracking_account_actual env mapping_entry =
     (case dict_item mapping_entry ''akahu_id'' of
        Inl e \<Rightarrow> Inl e
      | Inr akahu_account_id \<Rightarrow>
     (case dict_item mapping_entry ''actual_account_id'' of
        Inl e \<Rightarrow> Inl e
      | Inr actual_account_id \<Rightarrow>
     (case dict_item mapping_entry ''akahu_name'' of
        Inl e \<Rightarrow> Inl e
      | Inr akahu_account_name \<Rightarrow>
     (case dict_item mapping_entry ''actual_account_name'' of
        Inl e \<Rightarrow> Inl e
      | Inr actual_account_name \<Rightarrow>
     (case dict_item mapping_entry ''akahu_balance'' of
        Inl e \<Rightarrow> Inr []
      | Inr balance \<Rightarrow>
     (case round_cents env balance of
        None \<Rightarrow> Inr []
      | Some akahu_balance \<Rightarrow>
     (case actual_balance_of env actual_account_id of
        None \<Rightarrow> Inr []
      | Some actual_balance \<Rightarrow>
          if akahu_balance \<noteq> actual_balance then
            Inr [\<lparr>call_date = utcnow_date env,
                  call_account = actual_account_id,
                  call_payee = ''Balance Adjustment'',
                  call_notes = adjusted_notes env actual_balance akahu_balance,
                  call_amount = of_int (akahu_balance - actual_balance) / 100,
                  call_imported_id = ''adjustment_'' @ utcnow_isoformat env,
                  call_cleared = True,
                  call_imported_payee = ''Balance Adjustment''\<rparr>]
          else Inr [])))))))"

text \<open>
  An example: a tracking entry whose Akahu balance, 123.45, is 12345 minor units (the
  product is exact here, so how halves are rounded does not matter), and a target whose
  balance is the given \<open>t\<close>.
\<close>

definition example_tracking_entry :: pydict where
  "example_tracking_entry =
     [(''akahu_id'', JStr ''a1''), (''akahu_name'', JStr ''KiwiSaver''),
      (''actual_account_id'', JStr ''t1''), (''actual_account_name'', JStr ''Retirement''),
      (''account_type'', JStr ''Tracking''), (''akahu_balance'', JNum (12345 / 100))]"

definition example_tracking_env :: "int \<Rightarrow> tracking_env" where
  "example_tracking_env t =
     \<lparr>round_cents = (\<lambda>v. case v of JNum r \<Rightarrow> Some (round (r * 100)) | _ \<Rightarrow> None),
      actual_balance_of = (\<lambda>a. if a = JStr ''t1'' then Some t else None),
      utcnow_date = ''2025-02-02'',
      utcnow_isoformat = ''2025-02-02T10:00:00.000001'',
      adjusted_notes = (\<lambda>a b. ''Adjusted'')\<rparr>"

section \<open>Webhook ingress (akahu\_to\_budget.py)\<close>

text \<open>
  The cryptography library: loading the PEM public key (\<open>None\<close>: ValueError), base64
  decoding of the header (\<open>None\<close>: binascii.Error, a ValueError) and the PKCS1v15/SHA256
  check of a signature over the body.
\<close>

record 'k crypto =
  load_pem_public_key :: "string \<Rightarrow> 'k option"
  b64decode :: "string \<Rightarrow> string option"
  pkcs1v15_sha256_ok :: "'k \<Rightarrow> string \<Rightarrow> string \<Rightarrow> bool"

text \<open>
  The request as the handler reads it: the \<open>X-Akahu-Signature\<close> header
  (\<open>request.headers.get\<close> gives \<open>None\<close> when it is absent), the raw body, and what
  \<open>request.get_json()\<close> gives (a JSON object, \<open>None\<close>, or an exception of the framework).
\<close>

record webhook_request =
  x_akahu_signature :: "string option"
  raw_body :: string
  json_body :: "py_error + pydict option"

text \<open>
  \<open>verify_signature\<close>: the only exception it handles is InvalidSignature, which it
  raises again. The key is loaded first; \<open>base64.b64decode(None)\<close> raises TypeError.
\<close>

definition verify_signature ::
  "'k crypto \<Rightarrow> string \<Rightarrow> string option \<Rightarrow> string \<Rightarrow> py_error + unit" where
  "verify_signature lib public_key signature request_body =
     (case load_pem_public_key lib public_key of
        None \<Rightarrow> Inl ValueError
      | Some key \<Rightarrow>
          (case signature of
             None \<Rightarrow> Inl TypeError
           | Some s \<Rightarrow>
               (case b64decode lib s of
                  None \<Rightarrow> Inl ValueError
                | Some raw \<Rightarrow>
                    if pkcs1v15_sha256_ok lib key raw request_body then Inr ()
                    else Inl InvalidSignature)))"

text \<open>
  \<open>receive_transaction\<close>: the response (status code and the \<open>status\<close> field of its JSON
  body), or the exception that leaves the handler, which the framework answers with a
  500. \<open>open_budget\<close> is what opening the Actual session and downloading the budget
  raise, if anything. After that the handler evaluates the arguments of
  \<open>load_transactions_into_actual(pd.DataFrame([transactions]), g_mapping_list, mapping,
  actual)\<close>, where the name \<open>mapping\<close> is bound nowhere in the module: NameError, before
  the call. No path of the handler reaches the importer.
\<close>

definition receive_transaction ::
  "'k crypto \<Rightarrow> string \<Rightarrow> py_error option \<Rightarrow> webhook_request \<Rightarrow> py_error + (nat \<times> string)" where
  "receive_transaction lib public_key open_budget request =
     (case verify_signature lib public_key (x_akahu_signature request) (raw_body request) of
        Inl InvalidSignature \<Rightarrow> Inr (400, ''invalid signature'')
      | Inl e \<Rightarrow> Inl e
      | Inr u \<Rightarrow>
          (case json_body request of
             Inl e \<Rightarrow> Inl e
           | Inr None \<Rightarrow> Inr (200, ''ignored'')
           | Inr (Some d) \<Rightarrow>
               if d \<noteq> [] \<and> map_of d ''type'' = Some (JStr ''TRANSACTION_CREATED'') then
                 (case open_budget of
                    Some e \<Rightarrow> Inl e
                  | None \<Rightarrow> Inl NameError)
               else Inr (200, ''ignored'')))"

section \<open>Transaction fetch\<close>

text \<open>
  One GET of \<open>/accounts/{id}/transactions\<close> carries the query parameters \<open>start\<close> and,
  when set, \<open>cursor\<close>. The provider answers the \<open>k\<close>-th request of a fetch (counted from
  0) either with a failure (a network error, an error status, a body that is not JSON)
  or with a page: the \<open>items\<close> list (\<open>None\<close> when the key is absent) and the next cursor
  (\<open>None\<close> when \<open>cursor\<close> or \<open>next\<close> is absent, or \<open>next\<close> is null). A fetch returns the
  requests it sent, in order, with its result; a fetch that never stops has no value
  (\<open>None\<close>).
\<close>

record query_params =
  qp_start :: string
  qp_cursor :: "string option"

datatype 'txn response = RequestFailed | Page "'txn list option" "string option"

type_synonym 'txn provider = "nat \<Rightarrow> query_params \<Rightarrow> 'txn response"

subsection \<open>\<open>get_all_akahu\<close> of akahu\_to\_budget.py\<close>

text \<open>
  The \<open>while next_cursor is not None\<close> loop. A RequestException breaks out of the loop
  and the function returns what it has accumulated; an empty page ends the loop as a
  page without a next cursor does. \<open>res\<close> is the DataFrame of the rows so far (\<open>None\<close>
  before the first page).
\<close>

partial_function (option) akahu_pages ::
  "'txn provider \<Rightarrow> query_params \<Rightarrow> string option \<Rightarrow> 'txn list option \<Rightarrow> query_params list \<Rightarrow>
     (query_params list \<times> 'txn list option) option" where
  "akahu_pages provider query_params next_cursor res sent =
     (case next_cursor of
        None \<Rightarrow> Some (sent, res)
      | Some c \<Rightarrow>
          (let qp = (if c \<noteq> ''first time'' then query_params\<lparr>qp_cursor := Some c\<rparr>
                     else query_params)
           in case provider (length sent) qp of
                RequestFailed \<Rightarrow> Some (sent @ [qp], res)
              | Page items nxt \<Rightarrow>
                  (let akahu_txn = (case items of None \<Rightarrow> [] | Some rows \<Rightarrow> rows)
                   in akahu_pages provider qp
                        (if length akahu_txn = 0 then None else nxt)
                        (Some (case res of None \<Rightarrow> akahu_txn | Some r \<Rightarrow> r @ akahu_txn))
                        (sent @ [qp]))))"

declare akahu_pages.simps [code]

definition start_of_time :: string where
  "start_of_time = ''2024-01-01T00:00:00Z''"

definition get_all_akahu ::
  "(string \<Rightarrow> 'txn provider) \<Rightarrow> string \<Rightarrow> string option \<Rightarrow>
     (query_params list \<times> 'txn list option) option" where
  "get_all_akahu akahu akahu_account_id last_reconciled_at =
     akahu_pages (akahu akahu_account_id)
       \<lparr>qp_start = (case last_reconciled_at of
                      None \<Rightarrow> start_of_time
                    | Some s \<Rightarrow> if s \<noteq> [] then s else start_of_time),
        qp_cursor = None\<rparr>
       (Some ''first time'') None []"

subsection \<open>\<open>get_all_akahu\<close> of akahu\_to\_actual.py\<close>

text \<open>
  The datetime library: \<open>strptime(s, "%Y-%m-%dT%H:%M:%SZ")\<close> (\<open>None\<close>: ValueError),
  subtraction of \<open>timedelta(days=n)\<close>, and \<open>strftime("%Y-%m-%dT%H:%M:%SZ")\<close>.
\<close>

record 'dt datetime_lib =
  strptime_iso :: "string \<Rightarrow> 'dt option"
  minus_days :: "'dt \<Rightarrow> nat \<Rightarrow> 'dt"
  strftime_iso :: "'dt \<Rightarrow> string"

text \<open>
  The \<open>start\<close> parameter: the checkpoint, parsed, less seven days. \<open>start_of_time\<close> is
  assigned only when no checkpoint is given, so the handler of a checkpoint that does
  not parse reads an unbound local.
\<close>

definition lookback_start :: "'dt datetime_lib \<Rightarrow> string option \<Rightarrow> py_error + string" where
  "lookback_start lib last_reconciled_at =
     (case strptime_iso lib
             (case last_reconciled_at of None \<Rightarrow> start_of_time | Some s \<Rightarrow> s) of
        Some date_obj \<Rightarrow> Inr (strftime_iso lib (minus_days lib date_obj 7))
      | None \<Rightarrow>
          (case last_reconciled_at of
             Some s \<Rightarrow> Inl UnboundLocalError
           | None \<Rightarrow>
               (case strptime_iso lib start_of_time of
                  Some date_obj \<Rightarrow> Inr (strftime_iso lib (minus_days lib date_obj 7))
                | None \<Rightarrow> Inl ValueError)))"

text \<open>
  The loop of this version returns \<open>None\<close> (here: no rows) on an error status and on
  any exception, the missing \<open>items\<close> key included, and does not stop at an empty page.
\<close>

partial_function (option) akahu_pages_actual ::
  "'txn provider \<Rightarrow> query_params \<Rightarrow> string option \<Rightarrow> 'txn list option \<Rightarrow> query_params list \<Rightarrow>
     (query_params list \<times> 'txn list option) option" where
  "akahu_pages_actual provider query_params next_cursor res sent =
     (case next_cursor of
        None \<Rightarrow> Some (sent, res)
      | Some c \<Rightarrow>
          (let qp = (if c \<noteq> ''first_time'' then query_params\<lparr>qp_cursor := Some c\<rparr>
                     else query_params)
           in case provider (length sent) qp of
                RequestFailed \<Rightarrow> Some (sent @ [qp], None)
              | Page None nxt \<Rightarrow> Some (sent @ [qp], None)
              | Page (Some akahu_txn) nxt \<Rightarrow>
                  akahu_pages_actual provider qp nxt
                    (Some (case res of None \<Rightarrow> akahu_txn | Some r \<Rightarrow> r @ akahu_txn))
                    (sent @ [qp])))"

declare akahu_pages_actual.simps [code]

definition get_all_akahu_actual ::
  "'dt datetime_lib \<Rightarrow> (string \<Rightarrow> 'txn provider) \<Rightarrow> string \<Rightarrow> string option \<Rightarrow>
     (py_error + query_params list \<times> 'txn list option) option" where
  "get_all_akahu_actual lib akahu akahu_account_id last_reconciled_at =
     (case lookback_start lib last_reconciled_at of
        Inl e \<Rightarrow> Some (Inl e)
      | Inr week_before_date_str \<Rightarrow>
          map_option Inr
            (akahu_pages_actual (akahu akahu_account_id)
               \<lparr>qp_start = week_before_date_str, qp_cursor = None\<rparr>
               (Some ''first_time'') None []))"

subsection \<open>\<open>AkahuAPI.fetch_transactions_paginated\<close> (akahu\_api.py)\<close>

text \<open>
  Every request carries \<open>start\<close> and the current cursor (\<open>None\<close> at first, which the
  HTTP library leaves out). The loop stops at a falsy next cursor: absent, null or
  empty. A RequestException becomes a RuntimeError.
\<close>

partial_function (option) paginated_pages ::
  "'txn provider \<Rightarrow> string \<Rightarrow> string option \<Rightarrow> 'txn list \<Rightarrow> query_params list \<Rightarrow>
     (query_params list \<times> (py_error + 'txn list)) option" where
  "paginated_pages provider start_date next_cursor all_transactions sent =
     (let qp = \<lparr>qp_start = start_date, qp_cursor = next_cursor\<rparr>
      in case provider (length sent) qp of
           RequestFailed \<Rightarrow> Some (sent @ [qp], Inl RuntimeError)
         | Page items nxt \<Rightarrow>
             (let transactions = (case items of None \<Rightarrow> [] | Some rows \<Rightarrow> rows)
              in if nxt = None \<or> nxt = Some []
                 then Some (sent @ [qp], Inr (all_transactions @ transactions))
                 else paginated_pages provider start_date nxt
                        (all_transactions @ transactions) (sent @ [qp])))"

declare paginated_pages.simps [code]

definition fetch_transactions_paginated ::
  "(string \<Rightarrow> 'txn provider) \<Rightarrow> string \<Rightarrow> string \<Rightarrow>
     (query_params list \<times> (py_error + 'txn list)) option" where
  "fetch_transactions_paginated akahu account_id start_date =
     paginated_pages (akahu account_id) start_date None [] []"

subsection \<open>Scripted providers\<close>

text \<open>
  A provider that answers the \<open>k\<close>-th request with the \<open>k\<close>-th page of a script, whatever
  the request asks, and fails once the script is used up.
\<close>

definition scripted :: "('txn list \<times> string option) list \<Rightarrow> 'txn provider" where
  "scripted pages k qp =
     (if k < length pages then Page (Some (fst (pages ! k))) (snd (pages ! k))
      else RequestFailed)"

text \<open>
  The pages of a script that carry a next cursor, as pairs of items and cursor. They
  are \<open>chained\<close> when every page has items and its cursor is neither empty nor the
  word the loop of akahu\_to\_budget.py starts from.
\<close>

definition with_cursors :: "('txn list \<times> string) list \<Rightarrow> ('txn list \<times> string option) list" where
  "with_cursors body = map (\<lambda>(rows, c). (rows, Some c)) body"

definition chained :: "('txn list \<times> string) list \<Rightarrow> bool" where
  "chained body = list_all (\<lambda>(rows, c). rows \<noteq> [] \<and> c \<noteq> [] \<and> c \<noteq> ''first time'') body"

text \<open>The requests a fetch from \<open>start\<close> sends along such a script.\<close>

definition requests_along :: "string \<Rightarrow> ('txn list \<times> string) list \<Rightarrow> query_params list" where
  "requests_along start body =
     \<lparr>qp_start = start, qp_cursor = None\<rparr> #
     map (\<lambda>(rows, c). \<lparr>qp_start = start, qp_cursor = Some c\<rparr>) body"

section \<open>Transaction import\<close>

text \<open>
  A row of the DataFrame of fetched transactions, with the columns the script reads:
  \<open>_id\<close>, \<open>date\<close>, \<open>description\<close>, \<open>amount\<close> (the number as a rational; positive is
  money in) and \<open>merchant\<close> (a dictionary, \<open>None\<close> when the cell is missing).
\<close>

record akahu_txn =
  txn_id :: string
  txn_date :: string
  txn_description :: string
  txn_amount :: rat
  txn_merchant :: "pydict option"

subsection \<open>\<open>load_transactions_into_actual\<close> (akahu\_to\_budget.py)\<close>

text \<open>
  What the function takes from outside: \<open>parse_day\<close> is
  \<open>datetime.strptime(s, "%Y-%m-%d").date()\<close> (\<open>None\<close>: ValueError), \<open>reconcile\<close> is the
  library's \<open>reconcile_transaction\<close> on the target ledger, given the call and the
  \<open>already_matched\<close> list, answering with an exception or with whether the transaction
  it returns \<open>changed()\<close>, and \<open>utcnow_stamp\<close> is
  \<open>datetime.utcnow().strftime("%Y-%m-%dT%H:%M:%SZ")\<close> at the end of the run.
\<close>

record 'l import_env =
  parse_day :: "string \<Rightarrow> string option"
  reconcile :: "'l \<Rightarrow> actual_call \<Rightarrow> actual_call list \<Rightarrow> (py_error + bool) \<times> 'l"
  utcnow_stamp :: string

text \<open>The arguments of the \<open>reconcile_transaction\<close> call for one row.\<close>

definition reconcile_call :: "json \<Rightarrow> string \<Rightarrow> akahu_txn \<Rightarrow> actual_call" where
  "reconcile_call actual_account_id day txn =
     \<lparr>call_date = day,
      call_account = actual_account_id,
      call_payee = txn_description txn,
      call_notes = ''Akahu transaction: '' @ txn_description txn,
      call_amount = txn_amount txn * (- 1),
      call_imported_id = txn_id txn,
      call_cleared = True,
      call_imported_payee = txn_description txn\<rparr>"

text \<open>
  The loop over the rows. The date is parsed among the arguments of the call, inside the
  \<open>try\<close>: a row whose date does not parse is logged and skipped, as a row whose call
  raises is. The state is the ledger, the \<open>imported_transactions\<close> list and the calls
  issued so far.
\<close>

fun reconcile_rows ::
  "'l import_env \<Rightarrow> json \<Rightarrow> akahu_txn list \<Rightarrow> 'l \<Rightarrow> actual_call list \<Rightarrow> actual_call list \<Rightarrow>
     'l \<times> actual_call list \<times> actual_call list" where
  "reconcile_rows env actual_account_id [] ledger imported_transactions issued =
     (ledger, imported_transactions, issued)"
| "reconcile_rows env actual_account_id (txn # rest) ledger imported_transactions issued =
     (case parse_day env (txn_date txn) of
        None \<Rightarrow> reconcile_rows env actual_account_id rest ledger imported_transactions issued
      | Some day \<Rightarrow>
          (case reconcile env ledger (reconcile_call actual_account_id day txn)
                  imported_transactions of
             (Inl e, ledger') \<Rightarrow>
               reconcile_rows env actual_account_id rest ledger' imported_transactions
                 (issued @ [reconcile_call actual_account_id day txn])
           | (Inr changed, ledger') \<Rightarrow>
               reconcile_rows env actual_account_id rest ledger'
                 (if changed
                  then imported_transactions @ [reconcile_call actual_account_id day txn]
                  else imported_transactions)
                 (issued @ [reconcile_call actual_account_id day txn])))"

text \<open>
  \<open>load_transactions_into_actual(transactions, mapping_entry, actual)\<close>: the ledger
  after the run, the calls issued and the mapping entry after the run, or the KeyError
  of an entry without \<open>actual_account_id\<close>. With no rows it returns at once and leaves
  the entry as it is; otherwise it ends by setting \<open>actual_synced_datetime\<close>, whatever
  happened to the rows.
\<close>

definition load_transactions_into_actual ::
  "'l import_env \<Rightarrow> akahu_txn list option \<Rightarrow> pydict \<Rightarrow> 'l \<Rightarrow>
     py_error + 'l \<times> actual_call list \<times> pydict" where
  "load_transactions_into_actual env transactions mapping_entry ledger =
     (case transactions of
        None \<Rightarrow> Inr (ledger, [], mapping_entry)
      | Some rows \<Rightarrow>
          if rows = [] then Inr (ledger, [], mapping_entry)
          else
            (case dict_item mapping_entry ''actual_account_id'' of
               Inl e \<Rightarrow> Inl e
             | Inr actual_account_id \<Rightarrow>
                 (case reconcile_rows env actual_account_id rows ledger [] [] of
                    (ledger', imported_transactions, issued) \<Rightarrow>
                      Inr (ledger', issued,
                           AList.update ''actual_synced_datetime'' (JStr (utcnow_stamp env))
                             mapping_entry))))"

subsection \<open>\<open>load_transactions_into_ynab\<close> (akahu\_to\_budget.py)\<close>

text \<open>
  Python's \<open>v[k]\<close>, \<open>k in v\<close> and \<open>len(v)\<close> for a string \<open>k\<close> and a value \<open>v\<close> read from
  JSON, as the function applies them to the response of YNAB.
\<close>

definition py_subscript :: "json \<Rightarrow> string \<Rightarrow> py_error + json" where
  "py_subscript v k = (case v of JObj d \<Rightarrow> dict_item d k | _ \<Rightarrow> Inl TypeError)"

fun starts_with :: "string \<Rightarrow> string \<Rightarrow> bool" where
  "starts_with [] s = True"
| "starts_with (k # ks) [] = False"
| "starts_with (k # ks) (c # cs) = (k = c \<and> starts_with ks cs)"

fun substring_of :: "string \<Rightarrow> string \<Rightarrow> bool" where
  "substring_of k [] = (k = [])"
| "substring_of k (c # cs) = (starts_with k (c # cs) \<or> substring_of k cs)"

definition py_contains :: "json \<Rightarrow> string \<Rightarrow> py_error + bool" where
  "py_contains v k =
     (case v of
        JObj d \<Rightarrow> Inr (map_of d k \<noteq> None)
      | JArr xs \<Rightarrow> Inr (JStr k \<in> set xs)
      | JStr s \<Rightarrow> Inr (substring_of k s)
      | _ \<Rightarrow> Inl TypeError)"

definition py_len :: "json \<Rightarrow> py_error + nat" where
  "py_len v =
     (case v of
        JObj d \<Rightarrow> Inr (length d)
      | JArr xs \<Rightarrow> Inr (length xs)
      | JStr s \<Rightarrow> Inr (length s)
      | _ \<Rightarrow> Inl TypeError)"

text \<open>
  What \<open>requests.post\<close> and the two calls after it do: the post itself raises (no
  connection, a payload that cannot be serialised), or the response has an error status
  or a body that is not JSON (both raise a RequestException with \<open>response\<close> bound), or
  the body is the given JSON value.
\<close>

datatype ynab_answer = PostRaised | ErrorStatus | Body json

text \<open>
  The part of the function after \<open>response.json()\<close>: it reads
  \<open>ynab_response['data']\<close>, its \<open>duplicate_import_ids\<close> when present and its
  \<open>transactions\<close>, only to log counts, and returns the response. A KeyError or
  TypeError of these reads is not a RequestException and leaves the function.
\<close>

definition ynab_log_counts :: "json \<Rightarrow> py_error + json option" where
  "ynab_log_counts ynab_response =
     (case py_subscript ynab_response ''data'' of
        Inl e \<Rightarrow> Inl e
      | Inr data \<Rightarrow>
     (case py_contains data ''duplicate_import_ids'' of
        Inl e \<Rightarrow> Inl e
      | Inr present \<Rightarrow>
     (case (if present
            then (case py_subscript data ''duplicate_import_ids'' of
                    Inl e \<Rightarrow> Inl e
                  | Inr dups \<Rightarrow> py_len dups)
            else Inr 0) of
        Inl e \<Rightarrow> Inl e
      | Inr n_duplicates \<Rightarrow>
     (case py_subscript data ''transactions'' of
        Inl e \<Rightarrow> Inl e
      | Inr transactions \<Rightarrow>
     (case py_len transactions of
        Inl e \<Rightarrow> Inl e
      | Inr n_loaded \<Rightarrow> Inr (Some ynab_response))))))"

definition ynab_endpoint :: string where
  "ynab_endpoint = ''https://api.ynab.com/v1/''"

text \<open>
  \<open>load_transactions_into_ynab(akahu_txn, ynab_budget_id, ynab_account_id)\<close>: the posts
  it makes (the URI and the \<open>transactions\<close> of the payload) with what it returns or
  raises. The payload is \<open>akahu_txn.to_dict(orient='records')\<close>: the rows of the frame
  it is given, as they are; \<open>ynab_account_id\<close> is not read. When the post itself raises,
  the handler reads \<open>response\<close>, which was never bound.
\<close>

definition load_transactions_into_ynab ::
  "(string \<Rightarrow> akahu_txn list \<Rightarrow> ynab_answer) \<Rightarrow> akahu_txn list \<Rightarrow> string \<Rightarrow> string \<Rightarrow>
     (string \<times> akahu_txn list) list \<times> (py_error + json option)" where
  "load_transactions_into_ynab post akahu_txn ynab_budget_id ynab_account_id =
     (let uri = ynab_endpoint @ ''budgets/'' @ ynab_budget_id @ ''/transactions'';
          transactions_list = akahu_txn
      in ([(uri, transactions_list)],
          (case post uri transactions_list of
             PostRaised \<Rightarrow> Inl UnboundLocalError
           | ErrorStatus \<Rightarrow> Inr None
           | Body ynab_response \<Rightarrow> ynab_log_counts ynab_response)))"

text \<open>Example rows, and an importer environment whose ledger counts the calls.\<close>

definition example_txn :: "string \<Rightarrow> string \<Rightarrow> rat \<Rightarrow> akahu_txn" where
  "example_txn i d a =
     \<lparr>txn_id = i, txn_date = d, txn_description = ''Coffee'', txn_amount = a,
      txn_merchant = None\<rparr>"

definition example_import_env :: "nat import_env" where
  "example_import_env =
     \<lparr>parse_day = (\<lambda>s. if length s = 10 then Some s else None),
      reconcile = (\<lambda>ledger call matched. (Inr True, Suc ledger)),
      utcnow_stamp = ''2025-02-02T10:00:00Z''\<rparr>"

definition example_entry :: pydict where
  "example_entry =
     [(''akahu_id'', JStr ''a1''), (''akahu_name'', JStr ''Everyday''),
      (''actual_account_id'', JStr ''t1''), (''actual_account_name'', JStr ''Checking''),
      (''actual_synced_datetime'', JStr ''2025-01-01T00:00:00Z'')]"

section \<open>Reconciling removals: \<open>merge_and_update_mapping\<close> (akahu\_budget\_mapping.py)\<close>

text \<open>
  \<open>updated_mapping[akahu_id].get(backend, {}).get("id")\<close>: the \<open>id\<close> of the dictionary
  stored in the entry under \<open>actual\<close> or \<open>ynab\<close>; \<open>None\<close> when the entry has no such
  key, AttributeError when what is stored there is not a dictionary.
\<close>

definition nested_id :: "pydict \<Rightarrow> string \<Rightarrow> py_error + json" where
  "nested_id entry backend =
     (case map_of entry backend of
        None \<Rightarrow> Inr JNull
      | Some (JObj d) \<Rightarrow> Inr (dict_get d ''id'')
      | Some v \<Rightarrow> Inl AttributeError)"

text \<open>\<open>target_id and target_id not in [acc['id'] for acc in combined_accounts]\<close>.\<close>

definition no_longer_exists :: "json \<Rightarrow> account list \<Rightarrow> bool" where
  "no_longer_exists target_id combined_accounts =
     (truthy target_id \<and> target_id \<notin> set (map (JStr \<circ> acc_id) combined_accounts))"

text \<open>
  Step 5, the loop over \<open>list(updated_mapping.keys())\<close>: the Akahu ids to delete, and
  the pairs of a vanished Actual or YNAB id with the Akahu id whose entry names it.
\<close>

fun removal_scan ::
  "account list \<Rightarrow> account list \<Rightarrow> account list \<Rightarrow> mapping_store \<Rightarrow>
     py_error + string list \<times> (json \<times> string) list \<times> (json \<times> string) list" where
  "removal_scan combined_akahu combined_actual combined_ynab [] = Inr ([], [], [])"
| "removal_scan combined_akahu combined_actual combined_ynab ((akahu_id, entry) # rest) =
     (if akahu_id \<notin> set (map acc_id combined_akahu) then
        (case removal_scan combined_akahu combined_actual combined_ynab rest of
           Inl e \<Rightarrow> Inl e
         | Inr (akahu_to_delete, actual_to_delete, ynab_to_delete) \<Rightarrow>
             Inr (akahu_id # akahu_to_delete, actual_to_delete, ynab_to_delete))
      else
        (case nested_id entry ''actual'' of
           Inl e \<Rightarrow> Inl e
         | Inr actual_id \<Rightarrow>
        (case nested_id entry ''ynab'' of
           Inl e \<Rightarrow> Inl e
         | Inr ynab_id \<Rightarrow>
        (case removal_scan combined_akahu combined_actual combined_ynab rest of
           Inl e \<Rightarrow> Inl e
         | Inr (akahu_to_delete, actual_to_delete, ynab_to_delete) \<Rightarrow>
             Inr (akahu_to_delete,
                  (if no_longer_exists actual_id combined_actual
                   then (actual_id, akahu_id) # actual_to_delete else actual_to_delete),
                  (if no_longer_exists ynab_id combined_ynab
                   then (ynab_id, akahu_id) # ynab_to_delete else ynab_to_delete))))))"

text \<open>
  Step 7 for one pair: when the entry's flat id key holds the vanished id, the four
  fields of that backend are set to \<open>None\<close>.
\<close>

definition clear_backend ::
  "string \<Rightarrow> json \<times> string \<Rightarrow> mapping_store \<Rightarrow> py_error + mapping_store" where
  "clear_backend backend pair updated_mapping =
     (case pair of (target_id, akahu_id) \<Rightarrow>
        (case map_of updated_mapping akahu_id of
           None \<Rightarrow> Inl KeyError
         | Some entry \<Rightarrow>
             if dict_get entry (backend @ ''_account_id'') = target_id then
               Inr (AList.update akahu_id
                      (AList.update (backend @ ''_account_name'') JNull
                        (AList.update (backend @ ''_budget_name'') JNull
                          (AList.update (backend @ ''_budget_id'') JNull
                            (AList.update (backend @ ''_account_id'') JNull entry))))
                      updated_mapping)
             else Inr updated_mapping))"

fun clear_backends ::
  "string \<Rightarrow> (json \<times> string) list \<Rightarrow> mapping_store \<Rightarrow> py_error + mapping_store" where
  "clear_backends backend [] updated_mapping = Inr updated_mapping"
| "clear_backends backend (pair # rest) updated_mapping =
     (case clear_backend backend pair updated_mapping of
        Inl e \<Rightarrow> Inl e
      | Inr m \<Rightarrow> clear_backends backend rest m)"

text \<open>
  \<open>merge_and_update_mapping\<close>. \<open>clock k\<close> is the reading of \<open>datetime.now()\<close> in the
  \<open>k\<close>-th call of \<open>combine_accounts\<close>; \<open>confirmation\<close> is what the user types at the
  prompt, which is shown only when the scan found something to delete. The result is
  the updated mapping with the three combined account lists.
\<close>

definition merge_and_update_mapping ::
  "(nat \<Rightarrow> string) \<Rightarrow> string \<Rightarrow> mapping_store \<Rightarrow> account list \<Rightarrow> account list \<Rightarrow> account list \<Rightarrow>
     account list \<Rightarrow> account list \<Rightarrow> account list \<Rightarrow>
     py_error + mapping_store \<times> account list \<times> account list \<times> account list" where
  "merge_and_update_mapping clock confirmation existing_mapping latest_akahu_accounts
       latest_actual_accounts latest_ynab_accounts existing_akahu_accounts
       existing_actual_accounts existing_ynab_accounts =
     (let combined_akahu_accounts =
            fst (combine_accounts (clock 0) latest_akahu_accounts existing_akahu_accounts);
          combined_actual_accounts =
            fst (combine_accounts (clock 1) latest_actual_accounts existing_actual_accounts);
          combined_ynab_accounts =
            fst (combine_accounts (clock 2) latest_ynab_accounts existing_ynab_accounts)
      in case removal_scan combined_akahu_accounts combined_actual_accounts
                combined_ynab_accounts existing_mapping of
           Inl e \<Rightarrow> Inl e
         | Inr (akahu_to_delete, actual_to_delete, ynab_to_delete) \<Rightarrow>
             if \<not> (akahu_to_delete = [] \<and> actual_to_delete = [] \<and> ynab_to_delete = [])
                \<and> (confirmation = ''y'' \<or> confirmation = ''Y'')
             then
               (case clear_backends ''actual'' actual_to_delete
                       (foldl (\<lambda>m akahu_id. AList.delete akahu_id m) existing_mapping
                          akahu_to_delete) of
                  Inl e \<Rightarrow> Inl e
                | Inr m \<Rightarrow>
                    (case clear_backends ''ynab'' ynab_to_delete m of
                       Inl e \<Rightarrow> Inl e
                     | Inr updated_mapping \<Rightarrow>
                         Inr (updated_mapping, combined_akahu_accounts,
                              combined_actual_accounts, combined_ynab_accounts)))
             else Inr (existing_mapping, combined_akahu_accounts, combined_actual_accounts,
                       combined_ynab_accounts))"

section \<open>The durable state file\<close>

text \<open>
  The module-level state of the sync scripts: the account lists as read from the file,
  and \<open>g_mapping_list\<close>, which \<open>load_existing_mapping\<close> binds to a dictionary keyed by
  Akahu id when the file exists and to the empty list when it does not. The content of
  the file is a JSON value (\<open>None\<close>: no file); \<open>json.dump\<close> and \<open>json.load\<close> carry the
  values over as they are.
\<close>

datatype mapping_var = MappingDict "(json \<times> json) list" | MappingList "json list"

record sync_state =
  g_akahu_accounts :: json
  g_actual_accounts :: json
  g_ynab_accounts :: json
  g_mapping_list :: mapping_var

text \<open>A list or a dictionary cannot be a dictionary key.\<close>

fun hashable :: "json \<Rightarrow> bool" where
  "hashable (JArr xs) = False"
| "hashable (JObj kvs) = False"
| "hashable v = True"

text \<open>
  \<open>{entry['akahu_id']: entry for entry in entries}\<close> over a list: KeyError for a
  dictionary without the key, TypeError for an entry that is not a dictionary.
\<close>

fun entries_by_id :: "json list \<Rightarrow> (json \<times> json) list \<Rightarrow> py_error + (json \<times> json) list" where
  "entries_by_id [] m = Inr m"
| "entries_by_id (entry # rest) m =
     (case entry of
        JObj e \<Rightarrow>
          (case map_of e ''akahu_id'' of
             None \<Rightarrow> Inl KeyError
           | Some k \<Rightarrow>
               if hashable k then entries_by_id rest (AList.update k entry m)
               else Inl TypeError)
      | _ \<Rightarrow> Inl TypeError)"

text \<open>
  The same comprehension over whatever is stored under \<open>mapping\<close>. Iterating a
  dictionary or a string gives strings, and a string indexed by \<open>'akahu_id'\<close> raises
  TypeError; a number, a boolean or \<open>None\<close> cannot be iterated.
\<close>

definition mapping_by_id :: "json \<Rightarrow> py_error + (json \<times> json) list" where
  "mapping_by_id v =
     (case v of
        JArr entries \<Rightarrow> entries_by_id entries []
      | JObj kvs \<Rightarrow> if kvs = [] then Inr [] else Inl TypeError
      | JStr s \<Rightarrow> if s = [] then Inr [] else Inl TypeError
      | _ \<Rightarrow> Inl TypeError)"

text \<open>\<open>data.get(k, [])\<close>.\<close>

definition get_or_empty_list :: "pydict \<Rightarrow> string \<Rightarrow> json" where
  "get_or_empty_list d k = (case map_of d k of None \<Rightarrow> JArr [] | Some v \<Rightarrow> v)"

subsection \<open>akahu\_to\_budget.py\<close>

definition load_existing_mapping :: "json option \<Rightarrow> py_error + sync_state" where
  "load_existing_mapping file =
     (case file of
        None \<Rightarrow>
          Inr \<lparr>g_akahu_accounts = JArr [], g_actual_accounts = JArr [],
               g_ynab_accounts = JArr [], g_mapping_list = MappingList []\<rparr>
      | Some (JObj data) \<Rightarrow>
          (case mapping_by_id (get_or_empty_list data ''mapping'') of
             Inl e \<Rightarrow> Inl e
           | Inr mapping \<Rightarrow>
               Inr \<lparr>g_akahu_accounts = get_or_empty_list data ''akahu_accounts'',
                    g_actual_accounts = get_or_empty_list data ''actual_accounts'',
                    g_ynab_accounts = get_or_empty_list data ''ynab_accounts'',
                    g_mapping_list = MappingDict mapping\<rparr>)
      | Some v \<Rightarrow> Inl AttributeError)"

text \<open>
  \<open>save_updated_mapping\<close>: the new content of the file. \<open>g_mapping_list.values()\<close> raises
  AttributeError on the list that a start without a file leaves there.
\<close>

definition save_updated_mapping :: "sync_state \<Rightarrow> py_error + json" where
  "save_updated_mapping st =
     (case g_mapping_list st of
        MappingList entries \<Rightarrow> Inl AttributeError
      | MappingDict kvs \<Rightarrow>
          Inr (JObj [(''akahu_accounts'', g_akahu_accounts st),
                     (''actual_accounts'', g_actual_accounts st),
                     (''ynab_accounts'', g_ynab_accounts st),
                     (''mapping'', JArr (map snd kvs))]))"

subsection \<open>akahu\_to\_actual.py\<close>

record sync_state_actual =
  a_akahu_accounts :: json
  a_actual_accounts :: json
  a_mapping_list :: mapping_var

definition load_existing_mapping_actual :: "json option \<Rightarrow> py_error + sync_state_actual" where
  "load_existing_mapping_actual file =
     (case file of
        None \<Rightarrow>
          Inr \<lparr>a_akahu_accounts = JArr [], a_actual_accounts = JArr [],
               a_mapping_list = MappingList []\<rparr>
      | Some (JObj data) \<Rightarrow>
          (case mapping_by_id (get_or_empty_list data ''mapping'') of
             Inl e \<Rightarrow> Inl e
           | Inr mapping \<Rightarrow>
               Inr \<lparr>a_akahu_accounts = get_or_empty_list data ''akahu_accounts'',
                    a_actual_accounts = get_or_empty_list data ''actual_accounts'',
                    a_mapping_list = MappingDict mapping\<rparr>)
      | Some v \<Rightarrow> Inl AttributeError)"

text \<open>
  \<open>save_updated_mapping\<close> of this script writes \<open>{"mapping": g_mapping_list}\<close> and
  nothing else. A dictionary is written as a JSON object; \<open>json.dump\<close> turns a key
  that is a number, a boolean or \<open>None\<close> into a string (\<open>key_text\<close>).
\<close>

definition save_updated_mapping_actual :: "(json \<Rightarrow> string) \<Rightarrow> sync_state_actual \<Rightarrow> json" where
  "save_updated_mapping_actual key_text st =
     JObj [(''mapping'',
            (case a_mapping_list st of
               MappingList entries \<Rightarrow> JArr entries
             | MappingDict kvs \<Rightarrow>
                 JObj (map (\<lambda>(k, v). (case k of JStr s \<Rightarrow> s | _ \<Rightarrow> key_text k, v)) kvs)))]"

text \<open>Whether every entry of the dictionary sits under its own \<open>akahu_id\<close>, once.\<close>

definition keyed_by_id :: "(json \<times> json) list \<Rightarrow> bool" where
  "keyed_by_id kvs =
     (distinct (map fst kvs) \<and>
      list_all (\<lambda>(k, v). hashable k \<and>
                  (case v of JObj e \<Rightarrow> map_of e ''akahu_id'' = Some k | _ \<Rightarrow> False)) kvs)"

text \<open>The state of the example: one account on each side, mapped to each other.\<close>

definition example_state_actual :: sync_state_actual where
  "example_state_actual =
     \<lparr>a_akahu_accounts = JArr [JObj [(''id'', JStr ''a1''), (''name'', JStr ''Everyday'')]],
      a_actual_accounts = JArr [JObj [(''id'', JStr ''t1''), (''name'', JStr ''Checking'')]],
      a_mapping_list = MappingDict [(JStr ''a1'', JObj example_entry)]\<rparr>"

section \<open>Reconciling removals: \<open>merge_and_update_mapping\<close> (akahu\_actual\_mapping.py)\<close>

text \<open>
  The older script for Akahu and Actual Budget alone. It stamps \<open>date_first_loaded\<close> on
  the latest accounts that lack it, deletes the entries whose Akahu account is gone,
  then deletes every remaining entry whose \<open>actual_account_id\<close> (KeyError when absent)
  is not the id of a latest Actual account. The second list it collects holds Akahu
  ids, and the Actual accounts are filtered against it. The two lists of existing
  accounts are not read.
\<close>

definition stamp_if_missing :: "string \<Rightarrow> account \<Rightarrow> account" where
  "stamp_if_missing now a =
     (case date_first_loaded a of
        None \<Rightarrow> a\<lparr>date_first_loaded := Some now\<rparr>
      | Some d \<Rightarrow> a)"

fun entries_without_actual :: "account list \<Rightarrow> mapping_store \<Rightarrow> py_error + string list" where
  "entries_without_actual latest_actual_accounts [] = Inr []"
| "entries_without_actual latest_actual_accounts ((akahu_id, mapping_entry) # rest) =
     (case dict_item mapping_entry ''actual_account_id'' of
        Inl e \<Rightarrow> Inl e
      | Inr actual_account_id \<Rightarrow>
          (case entries_without_actual latest_actual_accounts rest of
             Inl e \<Rightarrow> Inl e
           | Inr others \<Rightarrow>
               if actual_account_id \<notin> set (map (JStr \<circ> acc_id) latest_actual_accounts)
               then Inr (akahu_id # others) else Inr others))"

definition merge_and_update_mapping_actual ::
  "string \<Rightarrow> mapping_store \<Rightarrow> account list \<Rightarrow> account list \<Rightarrow>
     py_error + mapping_store \<times> account list \<times> account list" where
  "merge_and_update_mapping_actual now existing_mapping latest_akahu_accounts
       latest_actual_accounts =
     (let akahu_accounts = map (stamp_if_missing now) latest_akahu_accounts;
          actual_accounts = map (stamp_if_missing now) latest_actual_accounts;
          akahu_accounts_to_remove =
            filter (\<lambda>akahu_id. akahu_id \<notin> set (map acc_id akahu_accounts))
              (map fst existing_mapping);
          mapping = foldl (\<lambda>m akahu_id. AList.delete akahu_id m) existing_mapping
                      akahu_accounts_to_remove
      in case entries_without_actual actual_accounts mapping of
           Inl e \<Rightarrow> Inl e
         | Inr actual_accounts_to_remove \<Rightarrow>
             Inr (foldl (\<lambda>m akahu_id. AList.delete akahu_id m) mapping
                    actual_accounts_to_remove,
                  filter (\<lambda>acc. acc_id acc \<notin> set akahu_accounts_to_remove) akahu_accounts,
                  filter (\<lambda>acc. acc_id acc \<notin> set actual_accounts_to_remove)
                    actual_accounts))"

section \<open>The sync run: \<open>main_loop\<close> (akahu\_to\_budget.py)\<close>

text \<open>
  What the run takes from outside: the Akahu provider of each account, the environment
  of the balance reconciler, the YNAB endpoint, and \<open>py_str\<close>, the text Python puts
  into a URL or a query parameter for a value that is not a string.
\<close>

record main_env =
  akahu :: "string \<Rightarrow> akahu_txn provider"
  tracking :: tracking_env
  ynab_post :: "string \<Rightarrow> akahu_txn list \<Rightarrow> ynab_answer"
  py_str :: "json \<Rightarrow> string"

definition text_of :: "main_env \<Rightarrow> json \<Rightarrow> string" where
  "text_of env v = (case v of JStr s \<Rightarrow> s | _ \<Rightarrow> py_str env v)"

text \<open>What a run does to the outside, in order.\<close>

datatype effect =
    AkahuRequests "query_params list"
  | CreateTransaction actual_call
  | YnabPost string "akahu_txn list"

text \<open>
  The body of the \<open>for\<close> loop for one value of the loop variable: the effects, and the
  exception that leaves the body, if any. Both sync flags of the script are \<open>True\<close>.
  The call \<open>load_transactions_into_actual(akahu_df, mapping_entry)\<close> gives two arguments
  to a function of three (\<open>transactions, mapping_entry, actual\<close>): TypeError, before the
  function runs. No path of the body reaches \<open>reconcile_transaction\<close> or changes the
  entry.
\<close>

definition sync_entry :: "main_env \<Rightarrow> json \<Rightarrow> (effect list \<times> py_error option) option" where
  "sync_entry env mapping_entry =
     (case py_subscript mapping_entry ''akahu_id'' of
        Inl e \<Rightarrow> Some ([], Some e)
      | Inr akahu_account_id \<Rightarrow>
     (case py_subscript mapping_entry ''actual_account_id'' of
        Inl e \<Rightarrow> Some ([], Some e)
      | Inr actual_account_id \<Rightarrow>
     (case mapping_entry of
        JObj d \<Rightarrow>
          (let account_type =
                 (case map_of d ''account_type'' of None \<Rightarrow> JStr ''On Budget'' | Some v \<Rightarrow> v)
           in if account_type = JStr ''Tracking'' then
                (case handle_tracking_account_actual (tracking env) d of
                   Inl e \<Rightarrow> Some ([], Some e)
                 | Inr calls \<Rightarrow> Some (map CreateTransaction calls, None))
              else if account_type = JStr ''On Budget'' then
                (let last_reconciled_at =
                       (case map_of d ''actual_synced_datetime'' of
                          None \<Rightarrow> JStr start_of_time
                        | Some v \<Rightarrow> v)
                 in case get_all_akahu (akahu env) (text_of env akahu_account_id)
                           (if truthy last_reconciled_at
                            then Some (text_of env last_reconciled_at) else None) of
                      None \<Rightarrow> None
                    | Some (sent, None) \<Rightarrow> Some ([AkahuRequests sent], None)
                    | Some (sent, Some akahu_df) \<Rightarrow>
                        if akahu_df = [] then Some ([AkahuRequests sent], None)
                        else if truthy (dict_get d ''actual_budget_id'')
                                \<and> truthy (dict_get d ''actual_account_id'')
                        then Some ([AkahuRequests sent], Some TypeError)
                        else if truthy (dict_get d ''ynab_budget_id'')
                                \<and> truthy (dict_get d ''ynab_account_id'')
                        then
                          (case load_transactions_into_ynab (ynab_post env) akahu_df
                                  (text_of env (dict_get d ''ynab_budget_id''))
                                  (text_of env (dict_get d ''ynab_account_id'')) of
                             (posts, Inl e) \<Rightarrow>
                               Some (AkahuRequests sent # map (\<lambda>(uri, rows). YnabPost uri rows) posts,
                                     Some e)
                           | (posts, Inr r) \<Rightarrow>
                               Some (AkahuRequests sent # map (\<lambda>(uri, rows). YnabPost uri rows) posts,
                                     None))
                        else Some ([AkahuRequests sent], None))
              else Some ([], None))
      | _ \<Rightarrow> Some ([], Some TypeError))))"

text \<open>The loop: it stops at the first exception.\<close>

fun sync_entries :: "main_env \<Rightarrow> json list \<Rightarrow> (effect list \<times> py_error option) option" where
  "sync_entries env [] = Some ([], None)"
| "sync_entries env (mapping_entry # rest) =
     (case sync_entry env mapping_entry of
        None \<Rightarrow> None
      | Some (effects, Some e) \<Rightarrow> Some (effects, Some e)
      | Some (effects, None) \<Rightarrow>
          (case sync_entries env rest of
             None \<Rightarrow> None
           | Some (later, r) \<Rightarrow> Some (effects @ later, r)))"

text \<open>
  \<open>main_loop\<close>: \<open>for mapping_entry in g_mapping_list\<close> runs over the keys when
  \<open>g_mapping_list\<close> is a dictionary, and over the elements when it is a list; after the
  loop the state is saved. The result is the effects of the run with the exception that
  ends it or the content of the file written; \<open>None\<close> when a fetch never stops.
\<close>

definition main_loop :: "main_env \<Rightarrow> sync_state \<Rightarrow> (effect list \<times> (py_error + json)) option" where
  "main_loop env st =
     (case sync_entries env
             (case g_mapping_list st of
                MappingDict kvs \<Rightarrow> map fst kvs
              | MappingList entries \<Rightarrow> entries) of
        None \<Rightarrow> None
      | Some (effects, Some e) \<Rightarrow> Some (effects, Inl e)
      | Some (effects, None) \<Rightarrow> Some (effects, save_updated_mapping st))"

text \<open>
  The example of a run: an on-budget entry as akahu\_actual\_mapping.py writes it, and
  the state that \<open>load_existing_mapping\<close> builds from a file that holds it.
\<close>

definition example_budget_entry :: pydict where
  "example_budget_entry =
     [(''actual_budget_name'', JStr ''Household Budget''),
      (''actual_account_name'', JStr ''Checking''),
      (''account_type'', JStr ''On Budget''),
      (''akahu_name'', JStr ''Everyday''),
      (''akahu_id'', JStr ''a1''),
      (''actual_budget_id'', JStr ''b1''),
      (''actual_account_id'', JStr ''t1''),
      (''note'', JNull),
      (''matched_date'', JStr ''2024-05-01T08:00:00''),
      (''actual_synced_datetime'', JStr ''2025-01-01T00:00:00Z'')]"

definition example_sync_state :: sync_state where
  "example_sync_state =
     \<lparr>g_akahu_accounts = JArr [JObj [(''id'', JStr ''a1''), (''name'', JStr ''Everyday'')]],
      g_actual_accounts = JArr [JObj [(''id'', JStr ''t1''), (''name'', JStr ''Checking'')]],
      g_ynab_accounts = JArr [],
      g_mapping_list = MappingDict [(JStr ''a1'', JObj example_budget_entry)]\<rparr>"

text \<open>A provider that answers one page of one row with a next cursor, then fails.\<close>

definition example_failing_akahu :: "string \<Rightarrow> akahu_txn provider" where
  "example_failing_akahu =
     (\<lambda>account_id. scripted [([example_txn ''x1'' ''2025-01-30'' 5], Some ''c1'')])"

section \<open>Theorems\<close>

subsection \<open>Dictionaries built from lists\<close>

lemma find_app:
  "List.find P (xs @ ys) = (case List.find P xs of None \<Rightarrow> List.find P ys | Some x \<Rightarrow> Some x)"
  by (induction xs) auto

lemma map_of_existing_ids_aux:
  "map_of (foldl (\<lambda>d a. AList.update (acc_id a) a d) d0 xs) k =
     (case List.find (\<lambda>e. acc_id e = k) (rev xs) of None \<Rightarrow> map_of d0 k | Some e \<Rightarrow> Some e)"
proof (induction xs arbitrary: d0)
  case Nil
  then show ?case by simp
next
  case (Cons x xs)
  show ?case
    by (simp add: Cons.IH update_conv' find_app split: option.splits)
qed

lemma map_of_existing_ids:
  "map_of (existing_ids_of xs) k = List.find (\<lambda>e. acc_id e = k) (rev xs)"
  by (simp add: existing_ids_of_def map_of_existing_ids_aux split: option.splits)

lemma keys_existing_ids_aux:
  "set (map fst (foldl (\<lambda>d a. AList.update (acc_id a) a d) d0 xs)) =
     set (map fst d0) \<union> set (map acc_id xs)"
  by (induction xs arbitrary: d0) (simp_all add: dom_update Un_assoc)

lemma distinct_existing_ids_aux:
  "distinct (map fst d0) \<Longrightarrow>
     distinct (map fst (foldl (\<lambda>d a. AList.update (acc_id a) a d) d0 xs))"
  by (induction xs arbitrary: d0) (auto simp: distinct_update)

lemma keys_existing_ids: "set (map fst (existing_ids_of xs)) = set (map acc_id xs)"
  using keys_existing_ids_aux [of "[]" xs] by (simp add: existing_ids_of_def)

lemma distinct_existing_ids: "distinct (map fst (existing_ids_of xs))"
  using distinct_existing_ids_aux [of "[]" xs] by (simp add: existing_ids_of_def)

subsection \<open>C4: the directory merge\<close>

lemma stamp_date:
  "date_first_loaded (stamp_account now (existing_ids_of existing) a) =
     (case List.find (\<lambda>e. acc_id e = acc_id a) (rev existing) of
        None \<Rightarrow> Some now
      | Some e \<Rightarrow> Some (case date_first_loaded e of None \<Rightarrow> now | Some d \<Rightarrow> d))"
  by (simp add: stamp_account_def map_of_existing_ids split: option.splits)

lemma stamp_id: "acc_id (stamp_account now d a) = acc_id a"
  by (simp add: stamp_account_def split: option.splits)

text \<open>
  C4, as amended. The merged list has exactly the ids of \<open>latest\<close>, in order. The
  account at each position carries the timestamp of the last record of \<open>existing\<close> with
  its id when there is one (the clock reading if that record has no timestamp), and the
  clock reading \<open>now\<close> when \<open>existing\<close> has no such id. The removed ids are exactly the
  ids of \<open>existing\<close> that \<open>latest\<close> lacks, each once, and they do not depend on the
  clock. The fresh timestamps are the clock reading, so the merge is a function of the
  two lists and the clock, not of the two lists alone.
\<close>

theorem combine_accounts_refresh:
  "map acc_id (fst (combine_accounts now latest existing)) = map acc_id latest \<and>
   (\<forall>i < length latest.
      date_first_loaded (fst (combine_accounts now latest existing) ! i) =
        (case List.find (\<lambda>e. acc_id e = acc_id (latest ! i)) (rev existing) of
           None \<Rightarrow> Some now
         | Some e \<Rightarrow> Some (case date_first_loaded e of None \<Rightarrow> now | Some d \<Rightarrow> d))) \<and>
   set (snd (combine_accounts now latest existing)) =
     set (map acc_id existing) - set (map acc_id latest) \<and>
   distinct (snd (combine_accounts now latest existing)) \<and>
   snd (combine_accounts now' latest existing) = snd (combine_accounts now latest existing)"
proof -
  have ids: "map acc_id (fst (combine_accounts now latest existing)) = map acc_id latest"
    by (simp add: combine_accounts_def Let_def stamp_id comp_def)
  have dates: "\<forall>i < length latest.
      date_first_loaded (fst (combine_accounts now latest existing) ! i) =
        (case List.find (\<lambda>e. acc_id e = acc_id (latest ! i)) (rev existing) of
           None \<Rightarrow> Some now
         | Some e \<Rightarrow> Some (case date_first_loaded e of None \<Rightarrow> now | Some d \<Rightarrow> d))"
    by (simp add: combine_accounts_def Let_def stamp_date)
  have removed: "set (snd (combine_accounts now latest existing)) =
     set (map acc_id existing) - set (map acc_id latest)"
    using keys_existing_ids [of existing]
    by (auto simp: combine_accounts_def Let_def)
  have dist: "distinct (snd (combine_accounts now latest existing))"
    using distinct_existing_ids [of existing]
    by (simp add: combine_accounts_def Let_def distinct_map_filter)
  have indep:
    "snd (combine_accounts now' latest existing) = snd (combine_accounts now latest existing)"
    by (simp add: combine_accounts_def Let_def)
  from ids dates removed dist indep show ?thesis by blast
qed

theorem combine_accounts_refresh_witness:
  "map acc_id (fst (combine_accounts ''2025-02-02T10:00:00''
      [acct ''a1'' ''Everyday'' None, acct ''a2'' ''Saver'' None]
      [acct ''a1'' ''Everyday'' (Some ''2024-01-01T09:00:00''),
       acct ''a3'' ''Old'' (Some ''2024-01-01T09:00:00'')])) = [''a1'', ''a2''] \<and>
   map date_first_loaded (fst (combine_accounts ''2025-02-02T10:00:00''
      [acct ''a1'' ''Everyday'' None, acct ''a2'' ''Saver'' None]
      [acct ''a1'' ''Everyday'' (Some ''2024-01-01T09:00:00''),
       acct ''a3'' ''Old'' (Some ''2024-01-01T09:00:00'')])) =
     [Some ''2024-01-01T09:00:00'', Some ''2025-02-02T10:00:00''] \<and>
   snd (combine_accounts ''2025-02-02T10:00:00''
      [acct ''a1'' ''Everyday'' None, acct ''a2'' ''Saver'' None]
      [acct ''a1'' ''Everyday'' (Some ''2024-01-01T09:00:00''),
       acct ''a3'' ''Old'' (Some ''2024-01-01T09:00:00'')]) = [''a3'']"
  using combine_accounts_refresh [of "''2025-02-02T10:00:00''"
      "[acct ''a1'' ''Everyday'' None, acct ''a2'' ''Saver'' None]"
      "[acct ''a1'' ''Everyday'' (Some ''2024-01-01T09:00:00''),
       acct ''a3'' ''Old'' (Some ''2024-01-01T09:00:00'')]" "''2025-02-02T10:00:00''"]
  by (simp add: combine_accounts_def Let_def existing_ids_of_def stamp_account_def acct_def)

text \<open>
  The claim as stated fails: the same two lists merged at two clock readings give
  different first-seen timestamps to an account that is new.
\<close>

theorem combine_accounts_clock_counterexample:
  "combine_accounts ''2025-02-02T10:00:00'' [acct ''a2'' ''Saver'' None] [] \<noteq>
   combine_accounts ''2025-02-03T10:00:00'' [acct ''a2'' ''Saver'' None] []"
  by (simp add: combine_accounts_def Let_def existing_ids_of_def stamp_account_def acct_def)

subsection \<open>C2: suggestions never point at a mapped target\<close>

lemma number_from_length [simp]: "length (number_from k ts) = length ts"
  by (induction ts arbitrary: k) auto

lemma number_from_nth:
  "i < length ts \<Longrightarrow> number_from k ts ! i = (ts ! i)\<lparr>seq := Some (int (k + i))\<rparr>"
proof (induction ts arbitrary: k i)
  case Nil
  then show ?case by simp
next
  case (Cons t ts)
  then show ?case by (cases i) auto
qed

lemma unmapped_targets_sound:
  "unmapped_targets m key k ts = Inr us \<Longrightarrow> (n, idx, s) \<in> set us \<Longrightarrow>
     int k \<le> idx \<and> idx < int (k + length ts) \<and>
     \<not> already_mapped m key (acc_id (ts ! nat (idx - int k)))"
proof (induction ts arbitrary: k us)
  case Nil
  then show ?case by simp
next
  case (Cons t ts)
  from Cons.prems(1) obtain a others where
    sq: "seq t = Some a" and rest: "unmapped_targets m key (Suc k) ts = Inr others"
    by (auto split: option.splits sum.splits)
  show ?case
  proof (cases "(n, idx, s) \<in> set others")
    case True
    from Cons.IH [OF rest True]
    have "int (Suc k) \<le> idx" "idx < int (Suc k + length ts)"
      "\<not> already_mapped m key (acc_id (ts ! nat (idx - int (Suc k))))"
      by auto
    moreover have "nat (idx - int k) = Suc (nat (idx - int (Suc k)))"
      using \<open>int (Suc k) \<le> idx\<close> by simp
    ultimately show ?thesis by simp
  next
    case False
    with Cons.prems sq rest have "idx = int k" "\<not> already_mapped m key (acc_id t)"
      by (auto split: if_splits)
    then show ?thesis by simp
  qed
qed

lemma index_of_Some: "index_of xs x = Some i \<Longrightarrow> i < length xs \<and> xs ! i = x"
  by (induction xs arbitrary: i) (auto split: if_splits)

lemma fuzzy_sound:
  assumes "get_fuzzy_match_suggestion ex ak ts m key = Inr (Some i)"
  shows "unmapped_index ts m key i"
proof -
  from assms obtain us b c j where
    us: "unmapped_targets m key 1 ts = Inr us" and
    j: "index_of (map fst us) b = Some j" and
    i: "i = map (fst \<circ> snd) us ! j"
    by (auto simp: get_fuzzy_match_suggestion_def Let_def
        split: sum.splits if_splits prod.splits option.splits)
  from index_of_Some [OF j] have jl: "j < length us" by simp
  then have "us ! j \<in> set us" by simp
  moreover obtain n idx s where e: "us ! j = (n, idx, s)" by (cases "us ! j")
  ultimately have "(n, idx, s) \<in> set us" by simp
  from unmapped_targets_sound [OF us this]
  have "1 \<le> idx" "idx < int (1 + length ts)"
    "\<not> already_mapped m key (acc_id (ts ! nat (idx - 1)))" by auto
  moreover from i jl e have "i = idx" by simp
  ultimately show ?thesis by (simp add: unmapped_index_def)
qed

lemma find_by_seq_numbered:
  "find_by_seq (number_from k ts) c = Inr (Some a) \<Longrightarrow>
     int k \<le> c \<and> c < int (k + length ts) \<and> acc_id a = acc_id (ts ! nat (c - int k))"
proof (induction ts arbitrary: k)
  case Nil
  then show ?case by simp
next
  case (Cons t ts)
  show ?case
  proof (cases "int k = c")
    case True
    with Cons.prems show ?thesis by auto
  next
    case False
    with Cons.prems have "find_by_seq (number_from (Suc k) ts) c = Inr (Some a)" by simp
    from Cons.IH [OF this]
    have "int (Suc k) \<le> c" "c < int (Suc k + length ts)"
      "acc_id a = acc_id (ts ! nat (c - int (Suc k)))" by auto
    moreover have "nat (c - int k) = Suc (nat (c - int (Suc k)))"
      using \<open>int (Suc k) \<le> c\<close> by simp
    ultimately show ?thesis by simp
  qed
qed

lemma validate_sound:
  assumes "validate_user_input py_int r (number_targets ts) m key = Inr (Some i)"
  shows "unmapped_index ts m key i"
proof -
  from assms obtain a where
    f: "find_by_seq (number_from 1 ts) i = Inr (Some a)" and
    u: "\<not> already_mapped m key (acc_id a)"
    by (auto simp: validate_user_input_def number_targets_def
        split: option.splits sum.splits if_splits)
  from find_by_seq_numbered [OF f] u show ?thesis
    by (simp add: unmapped_index_def)
qed

lemma acc_id_number_from: "map acc_id (number_from k ts) = map acc_id ts"
  by (induction ts arbitrary: k) auto

lemma unmapped_index_numbered:
  "unmapped_index (number_targets ts) m key i = unmapped_index ts m key i"
proof -
  have "i \<ge> 1 \<Longrightarrow> i \<le> int (length ts) \<Longrightarrow>
      acc_id (number_from 1 ts ! nat (i - 1)) = acc_id (ts ! nat (i - 1))"
    by (simp add: number_from_nth)
  then show ?thesis
    by (auto simp: unmapped_index_def number_targets_def)
qed

text \<open>
  C2. On the candidate list as \<open>match_accounts\<close> numbers it, whatever the fuzzy
  matcher, the chat completion and \<open>int()\<close> answer, an index returned by
  \<open>get_fuzzy_match_suggestion\<close> or by \<open>get_openai_match_suggestion\<close> is a 1-based
  position in the list whose account id is not recorded under the target-account key of
  any mapping entry.
\<close>

theorem suggestion_never_mapped:
  "(get_fuzzy_match_suggestion extractOne akahu_account (number_targets ts) m key = Inr (Some i)
      \<longrightarrow> unmapped_index ts m key i) \<and>
   (get_openai_match_suggestion ask py_int extractOne akahu_account (number_targets ts) m key
      = Inr (Some i) \<longrightarrow> unmapped_index ts m key i)"
proof (intro conjI impI)
  assume "get_fuzzy_match_suggestion extractOne akahu_account (number_targets ts) m key
     = Inr (Some i)"
  from fuzzy_sound [OF this] show "unmapped_index ts m key i"
    by (simp add: unmapped_index_numbered)
next
  assume a: "get_openai_match_suggestion ask py_int extractOne akahu_account
     (number_targets ts) m key = Inr (Some i)"
  then consider
    (fz) "get_fuzzy_match_suggestion extractOne akahu_account (number_targets ts) m key
       = Inr (Some i)"
    | (ai) r where "validate_user_input py_int r (number_targets ts) m key = Inr (Some i)"
    by (auto simp: get_openai_match_suggestion_def Let_def
        split: option.splits sum.splits)
  then show "unmapped_index ts m key i"
  proof cases
    case fz
    from fuzzy_sound [OF this] show ?thesis by (simp add: unmapped_index_numbered)
  next
    case ai
    from validate_sound [OF this] show ?thesis .
  qed
qed

theorem suggestion_never_mapped_witness:
  "get_fuzzy_match_suggestion (best_choice exact_scorer) example_akahu_account
     (number_targets example_targets) example_store ''actual_account_id'' = Inr (Some 2) \<and>
   get_openai_match_suggestion (\<lambda>n c l. Some ''1'') digit_int (best_choice exact_scorer)
     example_akahu_account (number_targets example_targets) example_store
     ''actual_account_id'' = Inr (Some 2) \<and>
   unmapped_index example_targets example_store ''actual_account_id'' 2"
proof -
  have f: "get_fuzzy_match_suggestion (best_choice exact_scorer) example_akahu_account
     (number_targets example_targets) example_store ''actual_account_id'' = Inr (Some 2)"
    by code_simp
  have g: "get_openai_match_suggestion (\<lambda>n c l. Some ''1'') digit_int
     (best_choice exact_scorer) example_akahu_account (number_targets example_targets)
     example_store ''actual_account_id'' = Inr (Some 2)"
    by code_simp
  from f g suggestion_never_mapped [where extractOne = "best_choice exact_scorer"
      and akahu_account = example_akahu_account and ts = example_targets
      and m = example_store and key = "''actual_account_id''" and i = 2
      and ask = "\<lambda>n c l. Some ''1''" and py_int = digit_int]
  show ?thesis by blast
qed

subsection \<open>C3: one adjustment when the balances differ, none when they agree\<close>

text \<open>
  C3. For a tracking entry that has its keys, a source balance that rounds to \<open>s\<close>
  minor units and a target balance of \<open>t\<close> minor units: when \<open>s = t\<close> no transaction
  is created; otherwise exactly one \<open>create_transaction\<close> call is issued, of amount
  \<open>(s - t) / 100\<close>, dated with the clock's date, with payee \<open>Balance Adjustment\<close> and
  the imported id \<open>adjustment_\<close> followed by the clock's ISO timestamp.
\<close>

theorem tracking_adjustment:
  assumes "dict_item mapping_entry ''akahu_id'' = Inr akahu_id"
    and "dict_item mapping_entry ''actual_account_id'' = Inr actual_account_id"
    and "dict_item mapping_entry ''akahu_name'' = Inr akahu_name"
    and "dict_item mapping_entry ''actual_account_name'' = Inr actual_name"
    and "dict_item mapping_entry ''akahu_balance'' = Inr source_balance"
    and "round_cents env source_balance = Some s"
    and "actual_balance_of env actual_account_id = Some t"
  shows "handle_tracking_account_actual env mapping_entry =
     Inr (if s = t then []
          else [\<lparr>call_date = utcnow_date env,
                 call_account = actual_account_id,
                 call_payee = ''Balance Adjustment'',
                 call_notes = adjusted_notes env t s,
                 call_amount = of_int (s - t) / 100,
                 call_imported_id = ''adjustment_'' @ utcnow_isoformat env,
                 call_cleared = True,
                 call_imported_payee = ''Balance Adjustment''\<rparr>])"
  using assms by (simp add: handle_tracking_account_actual_def)

theorem tracking_adjustment_witness:
  "handle_tracking_account_actual (example_tracking_env 12345) example_tracking_entry = Inr [] \<and>
   handle_tracking_account_actual (example_tracking_env 12000) example_tracking_entry =
     Inr [\<lparr>call_date = ''2025-02-02'',
           call_account = JStr ''t1'',
           call_payee = ''Balance Adjustment'',
           call_notes = ''Adjusted'',
           call_amount = 345 / 100,
           call_imported_id = ''adjustment_2025-02-02T10:00:00.000001'',
           call_cleared = True,
           call_imported_payee = ''Balance Adjustment''\<rparr>]"
  using
    tracking_adjustment [of example_tracking_entry "JStr ''a1''" "JStr ''t1''"
      "JStr ''KiwiSaver''" "JStr ''Retirement''" "JNum (12345 / 100)"
      "example_tracking_env 12345" 12345 12345]
    tracking_adjustment [of example_tracking_entry "JStr ''a1''" "JStr ''t1''"
      "JStr ''KiwiSaver''" "JStr ''Retirement''" "JNum (12345 / 100)"
      "example_tracking_env 12000" 12345 12000]
  by (simp add: example_tracking_entry_def example_tracking_env_def dict_item_def)

subsection \<open>C1: a request without a usable signature\<close>

text \<open>A signature that decodes and does not verify is answered with the 400.\<close>

lemma receive_transaction_signature_mismatch:
  assumes "load_pem_public_key lib public_key = Some key"
    and "x_akahu_signature request = Some s"
    and "b64decode lib s = Some raw"
    and "\<not> pkcs1v15_sha256_ok lib key raw (raw_body request)"
  shows "receive_transaction lib public_key open_budget request =
     Inr (400, ''invalid signature'')"
  using assms by (simp add: receive_transaction_def verify_signature_def)

text \<open>
  C1, at the failing input: a POST without the \<open>X-Akahu-Signature\<close> header. The
  handler does not answer 400: \<open>base64.b64decode(None)\<close> raises TypeError (ValueError
  if the configured key does not load), which \<open>except InvalidSignature\<close> does not
  catch, so the exception leaves the handler.
\<close>

theorem receive_transaction_missing_signature:
  "receive_transaction lib public_key open_budget
       \<lparr>x_akahu_signature = None, raw_body = body, json_body = j\<rparr> =
     Inl (if load_pem_public_key lib public_key = None then ValueError else TypeError)"
  by (simp add: receive_transaction_def verify_signature_def split: option.splits)

subsection \<open>Fetching along a script of pages\<close>

lemma scripted_at [simp]:
  "scripted (pre @ p # rest) (length pre) qp = Page (Some (fst p)) (snd p)"
  by (simp add: scripted_def nth_append)

lemma scripted_past [simp]: "scripted pages (length pages) qp = RequestFailed"
  by (simp add: scripted_def)

lemma cursor_update_eq:
  "(q::query_params)\<lparr>qp_cursor := Some c\<rparr> = \<lparr>qp_start = qp_start q, qp_cursor = Some c\<rparr>"
  by simp

lemma akahu_pages_to_last_page:
  assumes "chained body" and "length sent = length pre"
  shows "akahu_pages (scripted (pre @ with_cursors body @ [(l, None)])) qp (Some c) res sent =
     Some (sent @ (if c \<noteq> ''first time'' then qp\<lparr>qp_cursor := Some c\<rparr> else qp) #
             map (\<lambda>(rows, c). \<lparr>qp_start = qp_start qp, qp_cursor = Some c\<rparr>) body,
           Some ((case res of None \<Rightarrow> [] | Some r \<Rightarrow> r) @ concat (map fst body) @ l))"
  using assms
proof (induction body arbitrary: pre sent qp c res)
  case Nil
  have "scripted (pre @ [(l, None)]) (length pre) = (\<lambda>qp. Page (Some l) None)"
    by (rule ext) simp
  with Nil show ?case
    by (simp add: with_cursors_def akahu_pages.simps [of _ _ "Some c"]
        akahu_pages.simps [of _ _ None] Let_def split: option.splits)
next
  case (Cons p body)
  obtain rows c' where p: "p = (rows, c')" by (cases p)
  let ?q = "if c \<noteq> ''first time'' then qp\<lparr>qp_cursor := Some c\<rparr> else qp"
  let ?pre = "pre @ [(rows, Some c')]"
  from Cons.prems p have ok: "rows \<noteq> []" "c' \<noteq> ''first time''" "chained body"
    by (auto simp: chained_def)
  have script: "pre @ with_cursors (p # body) @ [(l, None)] =
      ?pre @ with_cursors body @ [(l, None)]"
    by (simp add: p with_cursors_def)
  have here: "scripted (pre @ with_cursors (p # body) @ [(l, None)]) (length sent) ?q =
      Page (Some rows) (Some c')"
    using Cons.prems(2) by (simp add: p with_cursors_def)
  have len: "length (sent @ [?q]) = length ?pre"
    using Cons.prems(2) by simp
  have step: "akahu_pages (scripted (pre @ with_cursors (p # body) @ [(l, None)])) qp (Some c) res sent =
      akahu_pages (scripted (?pre @ with_cursors body @ [(l, None)])) ?q (Some c')
        (Some (case res of None \<Rightarrow> rows | Some r \<Rightarrow> r @ rows)) (sent @ [?q])"
    apply (subst akahu_pages.simps)
    using here ok(1) apply (simp add: Let_def script del: append_assoc)
    done
  show ?case
    unfolding step
    apply (subst Cons.IH [OF ok(3) len])
    using ok(2) apply (simp add: p split: option.splits)
    done
qed

lemma akahu_pages_to_failure:
  assumes "chained body" and "length sent = length pre"
  shows "akahu_pages (scripted (pre @ with_cursors body)) qp (Some c) res sent =
     Some (sent @ (if c \<noteq> ''first time'' then qp\<lparr>qp_cursor := Some c\<rparr> else qp) #
             map (\<lambda>(rows, c). \<lparr>qp_start = qp_start qp, qp_cursor = Some c\<rparr>) body,
           if body = [] then res
           else Some ((case res of None \<Rightarrow> [] | Some r \<Rightarrow> r) @ concat (map fst body)))"
  using assms
proof (induction body arbitrary: pre sent qp c res)
  case Nil
  then show ?case
    by (simp add: with_cursors_def akahu_pages.simps [of _ _ "Some c"] Let_def)
next
  case (Cons p body)
  obtain rows c' where p: "p = (rows, c')" by (cases p)
  let ?q = "if c \<noteq> ''first time'' then qp\<lparr>qp_cursor := Some c\<rparr> else qp"
  let ?pre = "pre @ [(rows, Some c')]"
  from Cons.prems p have ok: "rows \<noteq> []" "c' \<noteq> ''first time''" "chained body"
    by (auto simp: chained_def)
  have script: "pre @ with_cursors (p # body) = ?pre @ with_cursors body"
    by (simp add: p with_cursors_def)
  have here: "scripted (pre @ with_cursors (p # body)) (length sent) ?q =
      Page (Some rows) (Some c')"
    using Cons.prems(2) by (simp add: p with_cursors_def)
  have len: "length (sent @ [?q]) = length ?pre"
    using Cons.prems(2) by simp
  have step: "akahu_pages (scripted (pre @ with_cursors (p # body))) qp (Some c) res sent =
      akahu_pages (scripted (?pre @ with_cursors body)) ?q (Some c')
        (Some (case res of None \<Rightarrow> rows | Some r \<Rightarrow> r @ rows)) (sent @ [?q])"
    apply (subst akahu_pages.simps)
    using here ok(1) apply (simp add: Let_def script del: append_assoc)
    done
  show ?case
    unfolding step
    apply (subst Cons.IH [OF ok(3) len])
    using ok(2) apply (simp add: p split: option.splits)
    done
qed

lemma paginated_pages_to_last_page:
  assumes "chained body" and "length sent = length pre"
  shows "paginated_pages (scripted (pre @ with_cursors body @ [(l, None)])) s c acc sent =
     Some (sent @ \<lparr>qp_start = s, qp_cursor = c\<rparr> #
             map (\<lambda>(rows, c). \<lparr>qp_start = s, qp_cursor = Some c\<rparr>) body,
           Inr (acc @ concat (map fst body) @ l))"
  using assms
proof (induction body arbitrary: pre sent c acc)
  case Nil
  have "scripted (pre @ [(l, None)]) (length pre) = (\<lambda>qp. Page (Some l) None)"
    by (rule ext) simp
  with Nil show ?case
    by (simp add: with_cursors_def paginated_pages.simps [of _ _ c] Let_def)
next
  case (Cons p body)
  obtain rows c' where p: "p = (rows, c')" by (cases p)
  let ?q = "\<lparr>qp_start = s, qp_cursor = c\<rparr>"
  let ?pre = "pre @ [(rows, Some c')]"
  from Cons.prems p have ok: "c' \<noteq> []" "chained body"
    by (auto simp: chained_def)
  have script: "pre @ with_cursors (p # body) @ [(l, None)] =
      ?pre @ with_cursors body @ [(l, None)]"
    by (simp add: p with_cursors_def)
  have here: "scripted (pre @ with_cursors (p # body) @ [(l, None)]) (length sent) ?q =
      Page (Some rows) (Some c')"
    using Cons.prems(2) by (simp add: p with_cursors_def)
  have len: "length (sent @ [?q]) = length ?pre"
    using Cons.prems(2) by simp
  have step: "paginated_pages (scripted (pre @ with_cursors (p # body) @ [(l, None)])) s c acc sent =
      paginated_pages (scripted (?pre @ with_cursors body @ [(l, None)])) s (Some c')
        (acc @ rows) (sent @ [?q])"
    apply (subst paginated_pages.simps)
    using here ok(1) apply (simp add: Let_def script del: append_assoc)
    done
  show ?case
    unfolding step
    apply (subst Cons.IH [OF ok(2) len])
    apply (simp add: p)
    done
qed

subsection \<open>C7: one request per page\<close>

text \<open>
  C7, as amended. Against a provider that answers page after page, every page but the
  last non-empty and carrying a next cursor (not empty, and not the word
  \<open>first time\<close>), the last carrying none, \<open>get_all_akahu\<close> of akahu\_to\_budget.py and
  \<open>fetch_transactions_paginated\<close> return: they send exactly one request per page, the
  first without a cursor and each later one with the cursor of the page before, and
  give the concatenation of all the pages' items. For next cursors \<open>c1\<close>, \<open>c2\<close>, none
  that is three requests (no cursor, \<open>c1\<close>, \<open>c2\<close>) and three pages.
\<close>

theorem pagination_one_request_per_page:
  assumes "chained body" and "start \<noteq> []"
  shows "get_all_akahu (\<lambda>a. scripted (with_cursors body @ [(last_rows, None)]))
           akahu_account_id (Some start) =
           Some (requests_along start body, Some (concat (map fst body) @ last_rows)) \<and>
         fetch_transactions_paginated (\<lambda>a. scripted (with_cursors body @ [(last_rows, None)]))
           account_id start =
           Some (requests_along start body, Inr (concat (map fst body) @ last_rows)) \<and>
         length (requests_along start body) = length (with_cursors body @ [(last_rows, None)])"
proof -
  have a: "get_all_akahu (\<lambda>a. scripted (with_cursors body @ [(last_rows, None)]))
           akahu_account_id (Some start) =
           Some (requests_along start body, Some (concat (map fst body) @ last_rows))"
    using akahu_pages_to_last_page [OF assms(1), of "[]" "[]" last_rows
        "\<lparr>qp_start = start, qp_cursor = None\<rparr>" "''first time''" None] assms(2)
    by (simp add: get_all_akahu_def requests_along_def)
  have b: "fetch_transactions_paginated (\<lambda>a. scripted (with_cursors body @ [(last_rows, None)]))
           account_id start =
           Some (requests_along start body, Inr (concat (map fst body) @ last_rows))"
    using paginated_pages_to_last_page [OF assms(1), of "[]" "[]" last_rows start None "[]"]
    by (simp add: fetch_transactions_paginated_def requests_along_def)
  have c: "length (requests_along start body) = length (with_cursors body @ [(last_rows, None)])"
    by (simp add: requests_along_def with_cursors_def)
  from a b c show ?thesis by blast
qed

theorem pagination_one_request_per_page_witness:
  "get_all_akahu (\<lambda>a. scripted [([''t1'', ''t2''], Some ''c1''), ([''t3''], Some ''c2''),
       ([''t4''], None)]) ''acc_1'' (Some ''2024-06-15T00:00:00Z'') =
     Some ([\<lparr>qp_start = ''2024-06-15T00:00:00Z'', qp_cursor = None\<rparr>,
            \<lparr>qp_start = ''2024-06-15T00:00:00Z'', qp_cursor = Some ''c1''\<rparr>,
            \<lparr>qp_start = ''2024-06-15T00:00:00Z'', qp_cursor = Some ''c2''\<rparr>],
           Some [''t1'', ''t2'', ''t3'', ''t4'']) \<and>
   fetch_transactions_paginated (\<lambda>a. scripted [([''t1'', ''t2''], Some ''c1''),
       ([''t3''], Some ''c2''), ([''t4''], None)]) ''acc_1'' ''2024-06-15T00:00:00Z'' =
     Some ([\<lparr>qp_start = ''2024-06-15T00:00:00Z'', qp_cursor = None\<rparr>,
            \<lparr>qp_start = ''2024-06-15T00:00:00Z'', qp_cursor = Some ''c1''\<rparr>,
            \<lparr>qp_start = ''2024-06-15T00:00:00Z'', qp_cursor = Some ''c2''\<rparr>],
           Inr [''t1'', ''t2'', ''t3'', ''t4''])"
  using pagination_one_request_per_page [of "[([''t1'', ''t2''], ''c1''), ([''t3''], ''c2'')]"
      "''2024-06-15T00:00:00Z''" "[''t4'']" "''acc_1''" "''acc_1''"]
  by (simp add: chained_def with_cursors_def requests_along_def)

text \<open>
  The claim as stated fails: for next cursors \<open>c1\<close> then \<open>c2\<close> then none, both fetches
  send three requests, not two.
\<close>

theorem pagination_two_requests_counterexample:
  "map_option (length \<circ> fst)
     (get_all_akahu (\<lambda>a. scripted [([''t1'', ''t2''], Some ''c1''), ([''t3''], Some ''c2''),
        ([''t4''], None)]) ''acc_1'' (Some ''2024-06-15T00:00:00Z'')) = Some 3 \<and>
   map_option (length \<circ> fst)
     (fetch_transactions_paginated (\<lambda>a. scripted [([''t1'', ''t2''], Some ''c1''),
        ([''t3''], Some ''c2''), ([''t4''], None)]) ''acc_1'' ''2024-06-15T00:00:00Z'') = Some 3"
  by code_simp

subsection \<open>C6: the start of the first request\<close>

text \<open>
  C6, at the failing input: \<open>get_all_akahu\<close> of akahu\_to\_budget.py with the
  checkpoint \<open>2024-06-15T00:00:00Z\<close>. The first (here the only) request carries the
  checkpoint itself as \<open>start\<close>, not \<open>2024-06-08T00:00:00Z\<close>.
\<close>

theorem get_all_akahu_start_is_checkpoint:
  "get_all_akahu (\<lambda>a. scripted [(rows, None)]) akahu_account_id
       (Some ''2024-06-15T00:00:00Z'') =
     Some ([\<lparr>qp_start = ''2024-06-15T00:00:00Z'', qp_cursor = None\<rparr>], Some rows)"
  using akahu_pages_to_last_page [of "[]" "[]" "[]" rows
      "\<lparr>qp_start = ''2024-06-15T00:00:00Z'', qp_cursor = None\<rparr>" "''first time''" None]
  by (simp add: get_all_akahu_def chained_def with_cursors_def)

text \<open>
  The sibling in akahu\_to\_actual.py does subtract the week: with a checkpoint that
  parses, the request carries the formatted date seven days before.
\<close>

lemma get_all_akahu_actual_lookback:
  assumes "strptime_iso lib checkpoint = Some date_obj"
  shows "get_all_akahu_actual lib (\<lambda>a. scripted [(rows, None)]) akahu_account_id
       (Some checkpoint) =
     Some (Inr ([\<lparr>qp_start = strftime_iso lib (minus_days lib date_obj 7),
                  qp_cursor = None\<rparr>], Some rows))"
proof -
  have "scripted [(rows, None)] 0 = (\<lambda>qp. Page (Some rows) None)"
    by (rule ext) (simp add: scripted_def)
  then show ?thesis
    using assms
    by (simp add: get_all_akahu_actual_def lookback_start_def
        akahu_pages_actual.simps [of _ _ "Some ''first_time''"]
        akahu_pages_actual.simps [of _ _ None])
qed

subsection \<open>C8: the sign of the amounts written\<close>

lemma reconcile_rows_issued:
  "reconcile_rows env a rows ledger imported issued = (ledger', imported', issued') \<Longrightarrow>
     issued' = issued @ map (\<lambda>t. reconcile_call a (the (parse_day env (txn_date t))) t)
       (filter (\<lambda>t. parse_day env (txn_date t) \<noteq> None) rows)"
proof (induction rows arbitrary: ledger imported issued)
  case Nil
  then show ?case by simp
next
  case (Cons t rows)
  show ?case
  proof (cases "parse_day env (txn_date t)")
    case None
    with Cons show ?thesis by simp
  next
    case (Some day)
    obtain r l where r: "reconcile env ledger (reconcile_call a day t) imported = (r, l)"
      by (cases "reconcile env ledger (reconcile_call a day t) imported")
    show ?thesis
    proof (cases r)
      case (Inl e)
      with Cons.prems Some r
      have "reconcile_rows env a rows l imported (issued @ [reconcile_call a day t]) =
          (ledger', imported', issued')" by simp
      from Cons.IH [OF this] Some show ?thesis by simp
    next
      case (Inr changed)
      with Cons.prems Some r
      have "reconcile_rows env a rows l
          (if changed then imported @ [reconcile_call a day t] else imported)
          (issued @ [reconcile_call a day t]) = (ledger', imported', issued')" by simp
      from Cons.IH [OF this] Some show ?thesis by simp
    qed
  qed
qed

lemma load_issued:
  assumes "load_transactions_into_actual env transactions mapping_entry ledger =
      Inr (ledger', issued, entry')"
  shows "\<exists>a. issued = map (\<lambda>t. reconcile_call a (the (parse_day env (txn_date t))) t)
       (filter (\<lambda>t. parse_day env (txn_date t) \<noteq> None)
          (case transactions of None \<Rightarrow> [] | Some rows \<Rightarrow> rows))"
proof (cases transactions)
  case None
  with assms show ?thesis by (simp add: load_transactions_into_actual_def)
next
  case (Some rows)
  show ?thesis
  proof (cases "rows = []")
    case True
    with assms Some show ?thesis by (simp add: load_transactions_into_actual_def)
  next
    case False
    with assms Some obtain a imp where
      "reconcile_rows env a rows ledger [] [] = (ledger', imp, issued)"
      by (auto simp: load_transactions_into_actual_def split: sum.splits prod.splits)
    from reconcile_rows_issued [OF this] Some show ?thesis by auto
  qed
qed

text \<open>
  C8, as amended. The \<open>reconcile_transaction\<close> calls that
  \<open>load_transactions_into_actual\<close> issues are, in order, those of the rows whose date
  parses; each carries the row's \<open>_id\<close> as imported id and the negation of the row's
  amount. For YNAB nothing is negated: \<open>load_transactions_into_ynab\<close> makes one post,
  whatever YNAB answers, and its transactions are the rows of the frame it is given,
  with the amounts of the source.
\<close>

theorem actual_amount_negated:
  assumes "load_transactions_into_actual env transactions mapping_entry ledger =
      Inr (ledger', issued, entry')"
  shows "map call_amount issued =
       map (\<lambda>t. - txn_amount t)
         (filter (\<lambda>t. parse_day env (txn_date t) \<noteq> None)
            (case transactions of None \<Rightarrow> [] | Some rows \<Rightarrow> rows)) \<and>
     map call_imported_id issued =
       map txn_id
         (filter (\<lambda>t. parse_day env (txn_date t) \<noteq> None)
            (case transactions of None \<Rightarrow> [] | Some rows \<Rightarrow> rows)) \<and>
     map snd (fst (load_transactions_into_ynab post akahu_df ynab_budget_id ynab_account_id)) =
       [akahu_df] \<and>
     map (map txn_amount \<circ> snd)
       (fst (load_transactions_into_ynab post akahu_df ynab_budget_id ynab_account_id)) =
       [map txn_amount akahu_df]"
  using load_issued [OF assms]
  by (auto simp: reconcile_call_def load_transactions_into_ynab_def Let_def comp_def)

theorem actual_amount_negated_witness:
  "\<exists>ledger' issued entry'.
     load_transactions_into_actual example_import_env
       (Some [example_txn ''x1'' ''2025-01-30'' 5,
              example_txn ''x2'' ''2025-01-30T00:00:00Z'' 7,
              example_txn ''x3'' ''2025-01-31'' (- 25 / 2)]) example_entry 0 =
       Inr (ledger', issued, entry') \<and>
     map call_amount issued = [- 5, 25 / 2] \<and>
     map call_imported_id issued = [''x1'', ''x3'']"
proof -
  let ?rows = "[example_txn ''x1'' ''2025-01-30'' 5,
                example_txn ''x2'' ''2025-01-30T00:00:00Z'' 7,
                example_txn ''x3'' ''2025-01-31'' (- 25 / 2)]"
  obtain r where r: "load_transactions_into_actual example_import_env (Some ?rows)
      example_entry 0 = Inr r"
    by (simp add: load_transactions_into_actual_def example_entry_def dict_item_def
        example_txn_def example_import_env_def)
  obtain ledger' issued entry' where t: "r = (ledger', issued, entry')"
    by (cases r)
  from actual_amount_negated [OF r [unfolded t], of "\<lambda>uri rows. ErrorStatus" "[]" "''b1''"
      "''y1''"]
  have "map call_amount issued = [- 5, 25 / 2]"
    and "map call_imported_id issued = [''x1'', ''x3'']"
    by (simp_all add: example_import_env_def example_txn_def)
  with r t show ?thesis by simp
qed

text \<open>
  The claim as stated fails for the YNAB backend: a row with the source amount 5 is
  posted to YNAB with the amount 5, not -5.
\<close>

theorem ynab_amount_not_negated_counterexample:
  "map (map txn_amount \<circ> snd)
     (fst (load_transactions_into_ynab
        (\<lambda>uri rows. Body (JObj [(''data'', JObj [(''transactions'', JArr [JObj []])])]))
        [example_txn ''x1'' ''2025-01-30T00:00:00Z'' 5] ''b1'' ''y1'')) = [[5]]"
  by (simp add: load_transactions_into_ynab_def example_txn_def)

subsection \<open>C10: a fetch cut short\<close>

text \<open>
  What does hold. The provider answers non-empty pages, each with a next cursor, and
  then fails: \<open>get_all_akahu\<close> of akahu\_to\_budget.py returns, with the rows of the
  pages it got (\<open>None\<close> only if it got no page) and no exception; the last request it
  sent is the one that failed.
\<close>

lemma get_all_akahu_returns_partial:
  assumes "chained body" and "start \<noteq> []"
  shows "get_all_akahu (\<lambda>a. scripted (with_cursors body)) akahu_account_id (Some start) =
           Some (requests_along start body,
                 if body = [] then None else Some (concat (map fst body)))"
  using akahu_pages_to_failure [OF assms(1), of "[]" "[]"
      "\<lparr>qp_start = start, qp_cursor = None\<rparr>" "''first time''" None] assms(2)
  by (simp add: get_all_akahu_def requests_along_def)

text \<open>
  C10, at the failing input: a run of \<open>main_loop\<close> on the state loaded from a file with
  one on-budget entry. \<open>g_mapping_list\<close> is a dictionary, the loop variable is the key
  \<open>a1\<close>, and \<open>mapping_entry['akahu_id']\<close> indexes a string: TypeError, before any
  fetch. Were the loop variable the entry itself, the body would fetch (here one page,
  then a failure) and then raise TypeError at the call of
  \<open>load_transactions_into_actual\<close>, which lacks the argument \<open>actual\<close>. Either way the
  caller imports nothing and the checkpoint stays where it was.
\<close>

theorem main_loop_never_imports:
  "main_loop env example_sync_state = Some ([], Inl TypeError) \<and>
   sync_entry (env\<lparr>akahu := example_failing_akahu\<rparr>) (JObj example_budget_entry) =
     Some ([AkahuRequests
              [\<lparr>qp_start = ''2025-01-01T00:00:00Z'', qp_cursor = None\<rparr>,
               \<lparr>qp_start = ''2025-01-01T00:00:00Z'', qp_cursor = Some ''c1''\<rparr>]],
           Some TypeError)"
proof -
  have a: "main_loop env example_sync_state = Some ([], Inl TypeError)"
    by (simp add: main_loop_def example_sync_state_def sync_entry_def py_subscript_def)
  have f: "get_all_akahu example_failing_akahu ''a1'' (Some ''2025-01-01T00:00:00Z'') =
      Some ([\<lparr>qp_start = ''2025-01-01T00:00:00Z'', qp_cursor = None\<rparr>,
             \<lparr>qp_start = ''2025-01-01T00:00:00Z'', qp_cursor = Some ''c1''\<rparr>],
            Some [example_txn ''x1'' ''2025-01-30'' 5])"
    using get_all_akahu_returns_partial [of "[([example_txn ''x1'' ''2025-01-30'' 5], ''c1'')]"
        "''2025-01-01T00:00:00Z''" "''a1''"]
    by (simp add: chained_def with_cursors_def requests_along_def example_failing_akahu_def
        example_txn_def)
  have b: "sync_entry (env\<lparr>akahu := example_failing_akahu\<rparr>) (JObj example_budget_entry) =
     Some ([AkahuRequests
              [\<lparr>qp_start = ''2025-01-01T00:00:00Z'', qp_cursor = None\<rparr>,
               \<lparr>qp_start = ''2025-01-01T00:00:00Z'', qp_cursor = Some ''c1''\<rparr>]],
           Some TypeError)"
    by (simp add: sync_entry_def py_subscript_def dict_item_def dict_get_def text_of_def
        example_budget_entry_def start_of_time_def f example_txn_def)
  from a b show ?thesis by simp
qed

subsection \<open>C5: a removed target account\<close>

text \<open>
  C5, at the failing input: the entry \<open>a1 \<rightarrow> t1\<close> as \<open>match_accounts\<close> writes it (the
  target id under the flat key \<open>actual_account_id\<close>), the Akahu account \<open>a1\<close> still
  listed, the Actual account \<open>t1\<close> gone from the latest list, and the user confirming.
  The scan looks for the target id under \<open>entry["actual"]["id"]\<close>, finds nothing, and
  the mapping comes back as it was: \<open>actual_account_id\<close> still names \<open>t1\<close>.
\<close>

theorem removed_target_not_cleared:
  "merge_and_update_mapping (\<lambda>k. ''2025-02-02T10:00:00'') ''y'' example_store
     [acct ''a1'' ''Cheque'' None] [] []
     [acct ''a1'' ''Cheque'' (Some ''2024-01-01T00:00:00'')]
     [acct ''t1'' ''Checking'' (Some ''2024-01-01T00:00:00'')] [] =
   Inr (example_store, [acct ''a1'' ''Cheque'' (Some ''2024-01-01T00:00:00'')], [], []) \<and>
   dict_get (the (map_of example_store ''a1'')) ''actual_account_id'' = JStr ''t1''"
  by (simp add: merge_and_update_mapping_def combine_accounts_def existing_ids_of_def
      stamp_account_def acct_def example_store_def nested_id_def no_longer_exists_def
      dict_get_def)

text \<open>
  What does hold: with the Akahu account \<open>a1\<close> gone from the latest list and the user
  confirming, its entry is deleted.
\<close>

lemma removed_source_is_deleted:
  "merge_and_update_mapping (\<lambda>k. ''2025-02-02T10:00:00'') ''y'' example_store
     [] [acct ''t1'' ''Checking'' None] []
     [acct ''a1'' ''Cheque'' (Some ''2024-01-01T00:00:00'')]
     [acct ''t1'' ''Checking'' (Some ''2024-01-01T00:00:00'')] [] =
   Inr ([], [], [acct ''t1'' ''Checking'' (Some ''2024-01-01T00:00:00'')], [])"
  by (simp add: merge_and_update_mapping_def combine_accounts_def existing_ids_of_def
      stamp_account_def acct_def example_store_def)

text \<open>
  The older script deletes the whole entry when its Actual account is gone.
\<close>

lemma removed_target_deletes_entry_actual:
  "merge_and_update_mapping_actual ''2025-02-02T10:00:00'' example_store
     [acct ''a1'' ''Cheque'' None] [] =
   Inr ([], [acct ''a1'' ''Cheque'' (Some ''2025-02-02T10:00:00'')], [])"
  by (simp add: merge_and_update_mapping_actual_def stamp_if_missing_def acct_def
      example_store_def dict_item_def)

subsection \<open>C9: saving and loading the state file\<close>

text \<open>
  C9, at the failing inputs. In akahu\_to\_actual.py, saving the example state writes
  only \<open>mapping\<close>, as a JSON object, and loading that file raises TypeError (the
  comprehension indexes the object's keys, which are strings); the account lists are
  not in the file at all. In akahu\_to\_budget.py, the state a start without a file
  leaves cannot be saved: \<open>g_mapping_list\<close> is a list then, and \<open>.values()\<close> raises
  AttributeError.
\<close>

theorem state_file_round_trip_fails:
  "load_existing_mapping_actual
     (Some (save_updated_mapping_actual key_text example_state_actual)) = Inl TypeError \<and>
   (case load_existing_mapping None of
      Inl e \<Rightarrow> Inl e
    | Inr st \<Rightarrow> save_updated_mapping st) = Inl AttributeError"
  by (simp add: load_existing_mapping_actual_def save_updated_mapping_actual_def
      example_state_actual_def mapping_by_id_def get_or_empty_list_def
      load_existing_mapping_def save_updated_mapping_def)

text \<open>
  What does hold: in akahu\_to\_budget.py, a state whose mapping dictionary keeps every
  entry under its own \<open>akahu_id\<close> (as every state read from a file does) comes back
  from save and load as it was.
\<close>

lemma update_fresh: "k \<notin> fst ` set m \<Longrightarrow> AList.update k v m = m @ [(k, v)]"
  by (induction m) auto

lemma entries_by_id_keyed:
  "keyed_by_id kvs \<Longrightarrow> fst ` set m \<inter> fst ` set kvs = {} \<Longrightarrow>
     entries_by_id (map snd kvs) m = Inr (m @ kvs)"
proof (induction kvs arbitrary: m)
  case Nil
  then show ?case by simp
next
  case (Cons p kvs)
  obtain k v where p: "p = (k, v)" by (cases p)
  from Cons.prems(1) p obtain e where
    v: "v = JObj e" and id: "map_of e ''akahu_id'' = Some k" and h: "hashable k"
    and rest: "keyed_by_id kvs" and fresh: "k \<notin> fst ` set kvs"
    by (auto simp: keyed_by_id_def split: json.splits)
  from Cons.prems(2) p have km: "k \<notin> fst ` set m" by auto
  have disj: "fst ` set (m @ [(k, v)]) \<inter> fst ` set kvs = {}"
    using Cons.prems(2) fresh p by auto
  from Cons.IH [OF rest disj] show ?case
    by (simp add: p v id h update_fresh [OF km])
qed

lemma save_then_load_budget:
  assumes "g_mapping_list st = MappingDict kvs" and "keyed_by_id kvs"
  shows "(case save_updated_mapping st of
            Inl e \<Rightarrow> Inl e
          | Inr file \<Rightarrow> load_existing_mapping (Some file)) = Inr st"
proof -
  from entries_by_id_keyed [OF assms(2), of "[]"]
  have "entries_by_id (map snd kvs) [] = Inr kvs" by simp
  with assms(1) show ?thesis
    by (simp add: save_updated_mapping_def load_existing_mapping_def mapping_by_id_def
        get_or_empty_list_def)
qed

end
